theory Spec2Isabelle
  imports Main
begin

section \<open>The systemd service controller of \<^verbatim>\<open>service/systemd/service.go\<close>\<close>

text \<open>
  The controller talks to three collaborators that are not part of the file: the D-Bus
  connection (\<^verbatim>\<open>dbusAPI\<close>), the file system (\<^verbatim>\<open>mkdirAll\<close>, \<^verbatim>\<open>createFile\<close>,
  \<^verbatim>\<open>removeAll\<close>) and the configuration helpers of the package (\<^verbatim>\<open>normalize\<close>,
  \<^verbatim>\<open>validate\<close>, \<^verbatim>\<open>serialize\<close>, \<^verbatim>\<open>getUnitOptions\<close>, \<^verbatim>\<open>deserializeOptions\<close>).
  They are parameters of the model: a record of functions over an arbitrary world \<open>'w\<close>.
  Every function of the file is a function of that record, of the service value and of
  the world; it returns its Go result, the new world and the list of collaborator calls
  it made, in order.
\<close>

subsection \<open>Errors\<close>

text \<open>
  \<open>External\<close> is an error value handed back by a collaborator. The other constructors
  are the calls of \<^verbatim>\<open>github.com/juju/errors\<close> the file makes, with the arguments the file
  passes: \<open>NotFoundf f\<close> is \<^verbatim>\<open>errors.NotFoundf(f)\<close>, \<open>Errorf f args\<close> is
  \<^verbatim>\<open>errors.Errorf(f, args...)\<close>. The library renders \<open>f\<close> and the arguments with
  \<^verbatim>\<open>fmt.Sprintf\<close> when it builds the message; the constructors keep the call, and
  \<open>Error\<close> below gives the message. A Go \<^verbatim>\<open>error\<close> is an \<open>error option\<close>, \<open>None\<close> for
  \<^verbatim>\<open>nil\<close>.
\<close>

datatype error =
    External string
  | Trace error
  | Annotate error string
  | NotFoundf string
  | Errorf string "string list"

text \<open>\<^verbatim>\<open>errors.Trace(nil)\<close> is \<^verbatim>\<open>nil\<close>.\<close>

definition errors_Trace :: "error option \<Rightarrow> error option" where
  "errors_Trace err = (case err of None \<Rightarrow> None | Some e \<Rightarrow> Some (Trace e))"

subsection \<open>Messages\<close>

text \<open>
  \<^verbatim>\<open>fmt.Sprintf\<close> on string arguments, as the documentation of the package \<^verbatim>\<open>fmt\<close> has
  it: a byte other than a percent sign is copied; \<^verbatim>\<open>%%\<close> prints a percent sign; \<^verbatim>\<open>%s\<close>
  and \<^verbatim>\<open>%v\<close> print the next argument; a verb with no argument left prints
  \<^verbatim>\<open>%!verb(MISSING)\<close>; a percent sign that ends the format prints \<^verbatim>\<open>%!(NOVERB)\<close>. The
  rest of the package (flags, widths, precisions, argument indexes, verbs that are not
  letters, other verbs with an argument, arguments left over) is not modelled: there the
  result is \<open>None\<close>.
\<close>

definition is_letter :: "char \<Rightarrow> bool" where
  "is_letter c = (c \<in> set ''abcdefghijklmnopqrstuvwxyzABCDEFGHIJKLMNOPQRSTUVWXYZ'')"

fun Sprintf :: "string \<Rightarrow> string list \<Rightarrow> string option" where
  "Sprintf [] args = (if args = [] then Some [] else None)"
| "Sprintf [c] args =
     (if c = CHR ''%'' then (if args = [] then Some ''%!(NOVERB)'' else None)
      else map_option ((#) c) (Sprintf [] args))"
| "Sprintf (c # v # format) args =
     (if c \<noteq> CHR ''%'' then map_option ((#) c) (Sprintf (v # format) args)
      else if v = CHR ''%'' then map_option ((#) CHR ''%'') (Sprintf format args)
      else if \<not> is_letter v then None
      else case args of
             [] \<Rightarrow> map_option (\<lambda>rest. ''%!'' @ [v] @ ''(MISSING)'' @ rest) (Sprintf format [])
           | a # args' \<Rightarrow>
               if v = CHR ''s'' \<or> v = CHR ''v'' then map_option ((@) a) (Sprintf format args')
               else None)"

text \<open>
  The message of an error, \<^verbatim>\<open>err.Error()\<close>. \<^verbatim>\<open>errors.NotFoundf\<close> formats its format
  followed by \<^verbatim>\<open>" not found"\<close>; \<^verbatim>\<open>errors.Trace\<close> keeps the message;
  \<^verbatim>\<open>errors.Annotate\<close> puts its text and a colon before it.
\<close>

fun Error :: "error \<Rightarrow> string option" where
  "Error (External m) = Some m"
| "Error (Trace e) = Error e"
| "Error (Annotate e m) = map_option (\<lambda>t. m @ '': '' @ t) (Error e)"
| "Error (NotFoundf format) = Sprintf (format @ '' not found'') []"
| "Error (Errorf format args) = Sprintf format args"

text \<open>\<^verbatim>\<open>strings.Contains\<close>: the second string occurs in the first.\<close>

fun Contains :: "string \<Rightarrow> string \<Rightarrow> bool" where
  "Contains [] substr = (substr = [])"
| "Contains (c # s) substr = (take (length substr) (c # s) = substr \<or> Contains s substr)"

subsection \<open>Data\<close>

text \<open>\<^verbatim>\<open>dbus.UnitStatus\<close>: the fields the file reads.\<close>

record UnitStatus =
  Name :: string
  LoadState :: string
  ActiveState :: string

text \<open>
  \<^verbatim>\<open>Service\<close>, with the embedded \<^verbatim>\<open>common.Service\<close> flattened: \<open>Service_Name\<close> is
  \<^verbatim>\<open>s.Service.Name\<close> and \<open>Service_Conf\<close> is \<^verbatim>\<open>s.Service.Conf\<close>. \<^verbatim>\<open>common.Conf\<close> is
  declared in another package; it is the type parameter \<open>'conf\<close>. \<open>Script\<close> is a byte
  slice, \<open>None\<close> when \<^verbatim>\<open>nil\<close>.
\<close>

record 'conf Service =
  Service_Name :: string
  Service_Conf :: 'conf
  ConfName :: string
  UnitName :: string
  Dirname :: string
  Script :: "string option"

subsection \<open>Collaborator calls\<close>

text \<open>
  One event for each call to a collaborator, with the arguments of the call and the
  error it returned; \<open>EvReceive\<close> is the receive \<^verbatim>\<open><-statusCh\<close>, with the value received,
  \<open>None\<close> when no value ever arrives.
\<close>

datatype event =
    EvNewConn "error option"
  | EvClose
  | EvListUnits "error option"
  | EvGetUnitOptions string string "error option"
  | EvNewChan
  | EvStartUnit string string "error option"
  | EvStopUnit string string "error option"
  | EvReceive "string option"
  | EvEnableUnitFiles "string list" bool bool "error option"
  | EvDisableUnitFiles "string list" bool "error option"
  | EvRemoveAll string "error option"
  | EvMkdirAll string "error option"
  | EvCreateFile string string nat "error option"

text \<open>
  The collaborators. \<open>'c\<close> is a connection, \<open>'ch\<close> a channel of strings, \<open>'opts\<close> the
  list of unit options \<^verbatim>\<open>getUnitOptions\<close> returns. \<open>receive\<close> is the Go runtime's channel
  receive: \<open>None\<close> when nothing is ever sent. \<open>ExecStart\<close> is the field of \<^verbatim>\<open>common.Conf\<close>
  that \<^verbatim>\<open>writeConf\<close> reads. \<open>path_Join\<close> is the standard library's \<^verbatim>\<open>path.Join\<close>, left
  uninterpreted. The values a caller discards (\<^verbatim>\<open>_\<close>) are not returned.
\<close>

record ('w, 'c, 'ch, 'conf, 'opts) env =
  newConn :: "'w \<Rightarrow> (error + 'c) \<times> 'w"
  Close :: "'c \<Rightarrow> 'w \<Rightarrow> 'w"
  ListUnits :: "'c \<Rightarrow> 'w \<Rightarrow> (error + UnitStatus list) \<times> 'w"
  StartUnit :: "'c \<Rightarrow> string \<Rightarrow> string \<Rightarrow> 'ch \<Rightarrow> 'w \<Rightarrow> error option \<times> 'w"
  StopUnit :: "'c \<Rightarrow> string \<Rightarrow> string \<Rightarrow> 'ch \<Rightarrow> 'w \<Rightarrow> error option \<times> 'w"
  EnableUnitFiles :: "'c \<Rightarrow> string list \<Rightarrow> bool \<Rightarrow> bool \<Rightarrow> 'w \<Rightarrow> error option \<times> 'w"
  DisableUnitFiles :: "'c \<Rightarrow> string list \<Rightarrow> bool \<Rightarrow> 'w \<Rightarrow> error option \<times> 'w"
  newChan :: "'w \<Rightarrow> 'ch \<times> 'w"
  receive :: "'ch \<Rightarrow> 'w \<Rightarrow> string option \<times> 'w"
  getUnitOptions :: "'c \<Rightarrow> string \<Rightarrow> string \<Rightarrow> 'w \<Rightarrow> (error + 'opts) \<times> 'w"
  deserializeOptions :: "'opts \<Rightarrow> error + 'conf"
  normalize :: "'conf \<Rightarrow> string \<Rightarrow> 'conf \<times> string option"
  validate :: "string \<Rightarrow> 'conf \<Rightarrow> error option"
  serialize :: "string \<Rightarrow> 'conf \<Rightarrow> error + string"
  ExecStart :: "'conf \<Rightarrow> string"
  findDataDir :: "error + string"
  path_Join :: "string list \<Rightarrow> string"
  removeAll :: "string \<Rightarrow> 'w \<Rightarrow> error option \<times> 'w"
  mkdirAll :: "string \<Rightarrow> 'w \<Rightarrow> error option \<times> 'w"
  createFile :: "string \<Rightarrow> string \<Rightarrow> nat \<Rightarrow> 'w \<Rightarrow> error option \<times> 'w"

subsection \<open>Sequencing\<close>

text \<open>
  A call either returns a value or blocks for ever (\<^verbatim>\<open>Start\<close> and \<^verbatim>\<open>Stop\<close> wait on a
  channel without a timeout). Either way it leaves a world and the calls made so far.
\<close>

datatype 'a result = Returns 'a | Blocks

type_synonym ('a, 'w) action = "'w \<Rightarrow> 'a result \<times> 'w \<times> event list"

definition ret :: "'a \<Rightarrow> ('a, 'w) action" where
  "ret a w = (Returns a, w, [])"

definition andThen :: "('a, 'w) action \<Rightarrow> ('a \<Rightarrow> ('b, 'w) action) \<Rightarrow> ('b, 'w) action" where
  "andThen m f w =
     (case m w of
        (Blocks, w1, evs1) \<Rightarrow> (Blocks, w1, evs1)
      | (Returns a, w1, evs1) \<Rightarrow>
          (case f a w1 of (r, w2, evs2) \<Rightarrow> (r, w2, evs1 @ evs2)))"

definition outcome :: "'a result \<times> 'w \<times> event list \<Rightarrow> 'a result" where
  "outcome x = fst x"

definition world :: "'a result \<times> 'w \<times> event list \<Rightarrow> 'w" where
  "world x = fst (snd x)"

definition events :: "'a result \<times> 'w \<times> event list \<Rightarrow> event list" where
  "events x = snd (snd x)"

definition err_of :: "error + 'a \<Rightarrow> error option" where
  "err_of r = (case r of Inl e \<Rightarrow> Some e | Inr _ \<Rightarrow> None)"

text \<open>The collaborator calls, each leaving its event.\<close>

definition call_newConn :: "('w, 'c, 'ch, 'conf, 'opts) env \<Rightarrow> (error + 'c, 'w) action" where
  "call_newConn E w = (case newConn E w of (r, w1) \<Rightarrow> (Returns r, w1, [EvNewConn (err_of r)]))"

definition call_Close :: "('w, 'c, 'ch, 'conf, 'opts) env \<Rightarrow> 'c \<Rightarrow> (unit, 'w) action" where
  "call_Close E conn w = (Returns (), Close E conn w, [EvClose])"

definition call_ListUnits ::
  "('w, 'c, 'ch, 'conf, 'opts) env \<Rightarrow> 'c \<Rightarrow> (error + UnitStatus list, 'w) action" where
  "call_ListUnits E conn w =
     (case ListUnits E conn w of (r, w1) \<Rightarrow> (Returns r, w1, [EvListUnits (err_of r)]))"

definition call_getUnitOptions ::
  "('w, 'c, 'ch, 'conf, 'opts) env \<Rightarrow> 'c \<Rightarrow> string \<Rightarrow> string \<Rightarrow> (error + 'opts, 'w) action" where
  "call_getUnitOptions E conn name typ w =
     (case getUnitOptions E conn name typ w of
        (r, w1) \<Rightarrow> (Returns r, w1, [EvGetUnitOptions name typ (err_of r)]))"

definition call_newChan :: "('w, 'c, 'ch, 'conf, 'opts) env \<Rightarrow> ('ch, 'w) action" where
  "call_newChan E w = (case newChan E w of (ch, w1) \<Rightarrow> (Returns ch, w1, [EvNewChan]))"

definition call_StartUnit ::
  "('w, 'c, 'ch, 'conf, 'opts) env \<Rightarrow> 'c \<Rightarrow> string \<Rightarrow> string \<Rightarrow> 'ch \<Rightarrow> (error option, 'w) action" where
  "call_StartUnit E conn name mode ch w =
     (case StartUnit E conn name mode ch w of
        (err, w1) \<Rightarrow> (Returns err, w1, [EvStartUnit name mode err]))"

definition call_StopUnit ::
  "('w, 'c, 'ch, 'conf, 'opts) env \<Rightarrow> 'c \<Rightarrow> string \<Rightarrow> string \<Rightarrow> 'ch \<Rightarrow> (error option, 'w) action" where
  "call_StopUnit E conn name mode ch w =
     (case StopUnit E conn name mode ch w of
        (err, w1) \<Rightarrow> (Returns err, w1, [EvStopUnit name mode err]))"

definition call_receive :: "('w, 'c, 'ch, 'conf, 'opts) env \<Rightarrow> 'ch \<Rightarrow> (string, 'w) action" where
  "call_receive E ch w =
     (case receive E ch w of
        (None, w1) \<Rightarrow> (Blocks, w1, [EvReceive None])
      | (Some status, w1) \<Rightarrow> (Returns status, w1, [EvReceive (Some status)]))"

definition call_EnableUnitFiles ::
  "('w, 'c, 'ch, 'conf, 'opts) env \<Rightarrow> 'c \<Rightarrow> string list \<Rightarrow> bool \<Rightarrow> bool \<Rightarrow> (error option, 'w) action" where
  "call_EnableUnitFiles E conn files runtime force w =
     (case EnableUnitFiles E conn files runtime force w of
        (err, w1) \<Rightarrow> (Returns err, w1, [EvEnableUnitFiles files runtime force err]))"

definition call_DisableUnitFiles ::
  "('w, 'c, 'ch, 'conf, 'opts) env \<Rightarrow> 'c \<Rightarrow> string list \<Rightarrow> bool \<Rightarrow> (error option, 'w) action" where
  "call_DisableUnitFiles E conn files runtime w =
     (case DisableUnitFiles E conn files runtime w of
        (err, w1) \<Rightarrow> (Returns err, w1, [EvDisableUnitFiles files runtime err]))"

definition call_removeAll :: "('w, 'c, 'ch, 'conf, 'opts) env \<Rightarrow> string \<Rightarrow> (error option, 'w) action" where
  "call_removeAll E name w =
     (case removeAll E name w of (err, w1) \<Rightarrow> (Returns err, w1, [EvRemoveAll name err]))"

definition call_mkdirAll :: "('w, 'c, 'ch, 'conf, 'opts) env \<Rightarrow> string \<Rightarrow> (error option, 'w) action" where
  "call_mkdirAll E dirname w =
     (case mkdirAll E dirname w of (err, w1) \<Rightarrow> (Returns err, w1, [EvMkdirAll dirname err]))"

definition call_createFile ::
  "('w, 'c, 'ch, 'conf, 'opts) env \<Rightarrow> string \<Rightarrow> string \<Rightarrow> nat \<Rightarrow> (error option, 'w) action" where
  "call_createFile E filename data perm w =
     (case createFile E filename data perm w of
        (err, w1) \<Rightarrow> (Returns err, w1, [EvCreateFile filename data perm err]))"

text \<open>
  \<^verbatim>\<open>defer conn.Close()\<close>: the connection is closed when the body returns, and the body's
  value is the function's value. A body that blocks never returns, and nothing is closed.
\<close>

definition defer_Close ::
  "('w, 'c, 'ch, 'conf, 'opts) env \<Rightarrow> 'c \<Rightarrow> ('a, 'w) action \<Rightarrow> ('a, 'w) action" where
  "defer_Close E conn body = andThen body (\<lambda>r. andThen (call_Close E conn) (\<lambda>_. ret r))"

subsection \<open>The standard library's string functions\<close>

definition HasSuffix :: "string \<Rightarrow> string \<Rightarrow> bool" where
  "HasSuffix s suffix =
     (length s \<ge> length suffix \<and> drop (length s - length suffix) s = suffix)"

definition TrimSuffix :: "string \<Rightarrow> string \<Rightarrow> string" where
  "TrimSuffix s suffix =
     (if HasSuffix s suffix then take (length s - length suffix) s else s)"

subsection \<open>\<^verbatim>\<open>ListServices\<close>\<close>

text \<open>The loop of \<^verbatim>\<open>ListServices\<close> over the units, with \<^verbatim>\<open>services\<close> as it grows.\<close>

fun ListServices_loop :: "UnitStatus list \<Rightarrow> string list \<Rightarrow> string list" where
  "ListServices_loop [] services = services"
| "ListServices_loop (unit # units) services =
     (if \<not> HasSuffix (Name unit) ''.service'' then ListServices_loop units services
      else ListServices_loop units (services @ [TrimSuffix (Name unit) ''.service'']))"

definition ListServices :: "('w, 'c, 'ch, 'conf, 'opts) env \<Rightarrow> (error + string list, 'w) action" where
  "ListServices E =
     andThen (call_newConn E) (\<lambda>r. case r of
         Inl err \<Rightarrow> ret (Inl (Trace err))
       | Inr conn \<Rightarrow> defer_Close E conn
           (andThen (call_ListUnits E conn) (\<lambda>r. case r of
                Inl err \<Rightarrow> ret (Inl (Trace err))
              | Inr units \<Rightarrow> ret (Inr (ListServices_loop units [])))))"

subsection \<open>The service\<close>

text \<open>
  \<^verbatim>\<open>setConf\<close> changes the service through its pointer: the model returns the service
  after the call together with the error.
\<close>

definition setConf ::
  "('w, 'c, 'ch, 'conf, 'opts) env \<Rightarrow> 'conf Service \<Rightarrow> 'conf \<Rightarrow> 'conf Service \<times> error option" where
  "setConf E s conf =
     (let scriptPath = path_Join E [Dirname s, ''exec-start.sh''];
          (normalConf, data) = normalize E conf scriptPath
      in case validate E (Service_Name s) normalConf of
           Some err \<Rightarrow> (s, Some (Trace err))
         | None \<Rightarrow> (s\<lparr>Service_Conf := normalConf, Script := data\<rparr>, None))"

text \<open>
  \<^verbatim>\<open>NewService\<close> returns \<^verbatim>\<open>nil\<close> when the data directory is not found, and the service
  with its configuration unset when \<^verbatim>\<open>setConf\<close> fails; \<open>zero\<close> is the zero value of
  \<^verbatim>\<open>common.Conf\<close>.
\<close>

definition NewService ::
  "('w, 'c, 'ch, 'conf, 'opts) env \<Rightarrow> 'conf \<Rightarrow> string \<Rightarrow> 'conf \<Rightarrow> 'conf Service option \<times> error option" where
  "NewService E zero name conf =
     (let confName = name @ ''.service''
      in case findDataDir E of
           Inl err \<Rightarrow> (None, Some (Trace err))
         | Inr dataDir \<Rightarrow>
             (let dirname = path_Join E [dataDir, ''init'', name];
                  service = \<lparr>Service_Name = name, Service_Conf = zero, ConfName = confName,
                             UnitName = confName, Dirname = dirname, Script = None\<rparr>
              in case setConf E service conf of
                   (service1, Some err) \<Rightarrow> (Some service1, Some (Trace err))
                 | (service1, None) \<Rightarrow> (Some service1, None)))"

text \<open>
  \<^verbatim>\<open>UpdateConfig\<close> has no result: the caller is left with the service as \<^verbatim>\<open>setConf\<close>
  left it. It is given the world only to say that it returns it as it was.
\<close>

definition UpdateConfig ::
  "('w, 'c, 'ch, 'conf, 'opts) env \<Rightarrow> 'conf Service \<Rightarrow> 'conf \<Rightarrow> ('conf Service, 'w) action" where
  "UpdateConfig E s conf = ret (fst (setConf E s conf))"

text \<open>The loop of \<^verbatim>\<open>Installed\<close> over the names.\<close>

fun Installed_loop :: "string list \<Rightarrow> string \<Rightarrow> bool" where
  "Installed_loop [] n = False"
| "Installed_loop (name # names) n = (if name = n then True else Installed_loop names n)"

definition Installed ::
  "('w, 'c, 'ch, 'conf, 'opts) env \<Rightarrow> 'conf Service \<Rightarrow> (bool, 'w) action" where
  "Installed E s =
     andThen (ListServices E) (\<lambda>r. case r of
         Inl err \<Rightarrow> ret False
       | Inr names \<Rightarrow> ret (Installed_loop names (Service_Name s)))"

text \<open>
  \<^verbatim>\<open>readConf\<close> returns a configuration and an error; its one caller reads the
  configuration only when the error is \<^verbatim>\<open>nil\<close>, so the model returns one or the other.
\<close>

definition readConf ::
  "('w, 'c, 'ch, 'conf, 'opts) env \<Rightarrow> 'conf Service \<Rightarrow> (error + 'conf, 'w) action" where
  "readConf E s =
     andThen (call_newConn E) (\<lambda>r. case r of
         Inl err \<Rightarrow> ret (Inl (Trace err))
       | Inr conn \<Rightarrow> defer_Close E conn
           (andThen (call_getUnitOptions E conn (UnitName s) ''Service'') (\<lambda>r. case r of
                Inl err \<Rightarrow> ret (Inl (Trace err))
              | Inr opts \<Rightarrow>
                  (case deserializeOptions E opts of
                     Inl err \<Rightarrow> ret (Inl (Trace err))
                   | Inr conf \<Rightarrow> ret (Inr conf)))))"

text \<open>\<^verbatim>\<open>reflect.DeepEqual\<close> on two configurations is equality of the values.\<close>

definition check ::
  "('w, 'c, 'ch, 'conf, 'opts) env \<Rightarrow> 'conf Service \<Rightarrow> (error + bool, 'w) action" where
  "check E s =
     andThen (readConf E s) (\<lambda>r. case r of
         Inl err \<Rightarrow> ret (Inl (Trace err))
       | Inr conf \<Rightarrow> ret (Inr (Service_Conf s = conf)))"

definition Exists ::
  "('w, 'c, 'ch, 'conf, 'opts) env \<Rightarrow> 'conf Service \<Rightarrow> (bool, 'w) action" where
  "Exists E s =
     andThen (check E s) (\<lambda>r. case r of
         Inl err \<Rightarrow> ret False
       | Inr same \<Rightarrow> ret same)"

text \<open>The loop of \<^verbatim>\<open>Running\<close>: the first unit of that name decides.\<close>

fun Running_loop :: "UnitStatus list \<Rightarrow> string \<Rightarrow> bool" where
  "Running_loop [] n = False"
| "Running_loop (unit # units) n =
     (if Name unit = n then LoadState unit = ''loaded'' \<and> ActiveState unit = ''active''
      else Running_loop units n)"

definition Running ::
  "('w, 'c, 'ch, 'conf, 'opts) env \<Rightarrow> 'conf Service \<Rightarrow> (bool, 'w) action" where
  "Running E s =
     andThen (call_newConn E) (\<lambda>r. case r of
         Inl err \<Rightarrow> ret False
       | Inr conn \<Rightarrow> defer_Close E conn
           (andThen (call_ListUnits E conn) (\<lambda>r. case r of
                Inl err \<Rightarrow> ret False
              | Inr units \<Rightarrow> ret (Running_loop units (UnitName s)))))"

definition Start ::
  "('w, 'c, 'ch, 'conf, 'opts) env \<Rightarrow> 'conf Service \<Rightarrow> (error option, 'w) action" where
  "Start E s =
     andThen (Installed E s) (\<lambda>installed.
       if \<not> installed then ret (Some (NotFoundf (''service '' @ Service_Name s)))
       else andThen (Running E s) (\<lambda>running.
         if running then ret None
         else andThen (call_newConn E) (\<lambda>r. case r of
             Inl err \<Rightarrow> ret (Some (Trace err))
           | Inr conn \<Rightarrow> defer_Close E conn
               (andThen (call_newChan E) (\<lambda>statusCh.
                  andThen (call_StartUnit E conn (UnitName s) ''fail'' statusCh) (\<lambda>err. case err of
                      Some e \<Rightarrow> ret (Some (Trace e))
                    | None \<Rightarrow> andThen (call_receive E statusCh) (\<lambda>status.
                        if status \<noteq> ''done''
                        then ret (Some (Errorf ''failed to start service %s'' [Service_Name s]))
                        else ret None)))))))"

text \<open>\<^verbatim>\<open>Stop\<close> ends with \<^verbatim>\<open>return err\<close>, where \<^verbatim>\<open>err\<close> is the \<^verbatim>\<open>nil\<close> of \<^verbatim>\<open>StopUnit\<close>.\<close>

definition Stop ::
  "('w, 'c, 'ch, 'conf, 'opts) env \<Rightarrow> 'conf Service \<Rightarrow> (error option, 'w) action" where
  "Stop E s =
     andThen (Running E s) (\<lambda>running.
       if \<not> running then ret None
       else andThen (call_newConn E) (\<lambda>r. case r of
           Inl err \<Rightarrow> ret (Some (Trace err))
         | Inr conn \<Rightarrow> defer_Close E conn
             (andThen (call_newChan E) (\<lambda>statusCh.
                andThen (call_StopUnit E conn (UnitName s) ''fail'' statusCh) (\<lambda>err. case err of
                    Some e \<Rightarrow> ret (Some (Trace e))
                  | None \<Rightarrow> andThen (call_receive E statusCh) (\<lambda>status.
                      if status \<noteq> ''done''
                      then ret (Some (Errorf ''failed to stop service %s'' [Service_Name s]))
                      else ret err))))))"

definition Remove ::
  "('w, 'c, 'ch, 'conf, 'opts) env \<Rightarrow> 'conf Service \<Rightarrow> (error option, 'w) action" where
  "Remove E s =
     andThen (Installed E s) (\<lambda>installed.
       if \<not> installed then ret None
       else andThen (call_newConn E) (\<lambda>r. case r of
           Inl err \<Rightarrow> ret (Some (Trace err))
         | Inr conn \<Rightarrow> defer_Close E conn
             (andThen (call_DisableUnitFiles E conn [UnitName s] False) (\<lambda>err. case err of
                  Some e \<Rightarrow> ret (Some (Trace e))
                | None \<Rightarrow> andThen (call_removeAll E (Dirname s)) (\<lambda>err. case err of
                    Some e \<Rightarrow> ret (Some (Trace e))
                  | None \<Rightarrow> ret None)))))"

definition StopAndRemove ::
  "('w, 'c, 'ch, 'conf, 'opts) env \<Rightarrow> 'conf Service \<Rightarrow> (error option, 'w) action" where
  "StopAndRemove E s =
     andThen (Stop E s) (\<lambda>err. case err of
         Some e \<Rightarrow> ret (Some (Trace e))
       | None \<Rightarrow> andThen (Remove E s) (\<lambda>err. ret (errors_Trace err)))"

text \<open>
  \<^verbatim>\<open>writeConf\<close> returns the file name and the error. The permissions are the octal
  \<^verbatim>\<open>0755\<close> and \<^verbatim>\<open>0644\<close>.
\<close>

definition writeConf ::
  "('w, 'c, 'ch, 'conf, 'opts) env \<Rightarrow> 'conf Service \<Rightarrow> (string \<times> error option, 'w) action" where
  "writeConf E s =
     (case serialize E (UnitName s) (Service_Conf s) of
        Inl err \<Rightarrow> ret ([], Some (Trace err))
      | Inr data \<Rightarrow>
          andThen (call_mkdirAll E (Dirname s)) (\<lambda>err. case err of
              Some e \<Rightarrow> ret ([], Some (Trace e))
            | None \<Rightarrow>
                (let filename = path_Join E [Dirname s, ConfName s]
                 in andThen
                      (case Script s of
                         None \<Rightarrow> ret None
                       | Some script \<Rightarrow>
                           call_createFile E (ExecStart E (Service_Conf s)) script 493)
                      (\<lambda>err. case err of
                          Some e \<Rightarrow> ret (filename, Some (Trace e))
                        | None \<Rightarrow>
                            andThen (call_createFile E filename data 420) (\<lambda>err. case err of
                                Some e \<Rightarrow> ret (filename, Some (Trace e))
                              | None \<Rightarrow> ret (filename, None))))))"

text \<open>
  \<^verbatim>\<open>Install\<close>. \<open>proceed\<close> is the part after the first \<^verbatim>\<open>if\<close>, from \<^verbatim>\<open>writeConf\<close> on, which
  two paths reach.
\<close>

definition Install ::
  "('w, 'c, 'ch, 'conf, 'opts) env \<Rightarrow> 'conf Service \<Rightarrow> (error option, 'w) action" where
  "Install E s =
     (let proceed =
            andThen (writeConf E s) (\<lambda>(filename, err). case err of
                Some e \<Rightarrow> ret (Some (Trace e))
              | None \<Rightarrow> andThen (call_newConn E) (\<lambda>r. case r of
                  Inl err \<Rightarrow> ret (Some (Trace err))
                | Inr conn \<Rightarrow> defer_Close E conn
                    (andThen (call_EnableUnitFiles E conn [filename] False True)
                       (\<lambda>err. ret (errors_Trace err)))))
      in andThen (Installed E s) (\<lambda>installed.
           if installed then
             andThen (check E s) (\<lambda>r. case r of
                 Inl err \<Rightarrow> ret (Some (Trace err))
               | Inr same \<Rightarrow>
                   if same then ret None
                   else andThen (StopAndRemove E s) (\<lambda>err. case err of
                       Some e \<Rightarrow>
                         ret (Some (Annotate e ''systemd: could not remove old service''))
                     | None \<Rightarrow> proceed))
           else proceed))"

section \<open>A sample backend\<close>

text \<open>
  A small init system and file system in memory, to run the controller on: the units
  the backend lists, the unit file text it holds for each enabled unit, the files on
  disk, the names of the calls that fail, the number of connections it still accepts
  (\<open>None\<close> for any number) and the completion value it sends on a status channel.
\<close>

record sample_world =
  units :: "UnitStatus list"
  live :: "(string \<times> string) list"
  files :: "(string \<times> string) list"
  dirs :: "string list"
  faulty :: "string list"
  conns_left :: "nat option"
  reply :: "string option"

text \<open>
  Modelled from the spec: \<^verbatim>\<open>common.Conf\<close>, which is declared outside the file. The spec
  gives a configuration an executable command line, a description and an optional
  inline script body.
\<close>

record sample_conf =
  Desc :: string
  Exec :: string
  InlineScript :: string

definition zero_conf :: sample_conf where
  "zero_conf = \<lparr>Desc = [], Exec = [], InlineScript = []\<rparr>"

text \<open>
  Modelled from the spec: \<^verbatim>\<open>normalize\<close>, which is defined outside the file. A
  configuration with an inline script gets the script path as its executable and the
  script's bytes are returned; any other configuration passes unchanged, with no bytes.
\<close>

definition sample_normalize :: "sample_conf \<Rightarrow> string \<Rightarrow> sample_conf \<times> string option" where
  "sample_normalize conf scriptPath =
     (if InlineScript conf = [] then (conf, None)
      else (conf\<lparr>Exec := scriptPath, InlineScript := []\<rparr>, Some (InlineScript conf)))"

text \<open>
  Modelled from the spec: \<^verbatim>\<open>validate\<close>, which is defined outside the file. It rejects
  an empty name and a configuration without an executable.
\<close>

definition sample_validate :: "string \<Rightarrow> sample_conf \<Rightarrow> error option" where
  "sample_validate name conf =
     (if name = [] then Some (External ''missing service name'')
      else if Exec conf = [] then Some (External ''missing executable'')
      else None)"

text \<open>The sample unit file text: the description, a line feed, the executable.\<close>

definition sample_serialize :: "string \<Rightarrow> sample_conf \<Rightarrow> error + string" where
  "sample_serialize unitName conf = Inr (Desc conf @ [CHR 0x0A] @ Exec conf)"

definition sample_deserialize :: "string \<Rightarrow> error + sample_conf" where
  "sample_deserialize text =
     (if CHR 0x0A \<notin> set text then Inl (External ''malformed unit file'')
      else Inr \<lparr>Desc = takeWhile (\<lambda>c. c \<noteq> CHR 0x0A) text,
                Exec = drop 1 (dropWhile (\<lambda>c. c \<noteq> CHR 0x0A) text),
                InlineScript = []\<rparr>)"

definition sample_Join :: "string list \<Rightarrow> string" where
  "sample_Join elems =
     (case elems of [] \<Rightarrow> [] | e # es \<Rightarrow> foldl (\<lambda>p q. p @ ''/'' @ q) e es)"

definition basename :: "string \<Rightarrow> string" where
  "basename p = rev (takeWhile (\<lambda>c. c \<noteq> CHR ''/'') (rev p))"

definition fails :: "string \<Rightarrow> sample_world \<Rightarrow> bool" where
  "fails call w = (call \<in> set (faulty w))"

definition sample_newConn :: "sample_world \<Rightarrow> (error + unit) \<times> sample_world" where
  "sample_newConn w =
     (case conns_left w of
        None \<Rightarrow> (Inr (), w)
      | Some 0 \<Rightarrow> (Inl (External ''dbus: connection refused''), w)
      | Some (Suc n) \<Rightarrow> (Inr (), w\<lparr>conns_left := Some n\<rparr>))"

definition sample_ListUnits :: "unit \<Rightarrow> sample_world \<Rightarrow> (error + UnitStatus list) \<times> sample_world" where
  "sample_ListUnits conn w =
     (if fails ''ListUnits'' w then (Inl (External ''ListUnits failed''), w)
      else (Inr (units w), w))"

definition set_active :: "string \<Rightarrow> string \<Rightarrow> UnitStatus list \<Rightarrow> UnitStatus list" where
  "set_active name state us =
     map (\<lambda>u. if Name u = name then u\<lparr>ActiveState := state\<rparr> else u) us"

definition sample_StartUnit ::
  "unit \<Rightarrow> string \<Rightarrow> string \<Rightarrow> unit \<Rightarrow> sample_world \<Rightarrow> error option \<times> sample_world" where
  "sample_StartUnit conn name mode ch w =
     (if fails ''StartUnit'' w then (Some (External ''StartUnit failed''), w)
      else if reply w = Some ''done'' then (None, w\<lparr>units := set_active name ''active'' (units w)\<rparr>)
      else (None, w))"

definition sample_StopUnit ::
  "unit \<Rightarrow> string \<Rightarrow> string \<Rightarrow> unit \<Rightarrow> sample_world \<Rightarrow> error option \<times> sample_world" where
  "sample_StopUnit conn name mode ch w =
     (if fails ''StopUnit'' w then (Some (External ''StopUnit failed''), w)
      else if reply w = Some ''done'' then (None, w\<lparr>units := set_active name ''inactive'' (units w)\<rparr>)
      else (None, w))"

text \<open>Enabling a unit file loads the unit under the file's base name, inactive.\<close>

fun enable_files :: "string list \<Rightarrow> sample_world \<Rightarrow> sample_world" where
  "enable_files [] w = w"
| "enable_files (f # fs) w =
     (case map_of (files w) f of
        None \<Rightarrow> enable_files fs w
      | Some text \<Rightarrow>
          enable_files fs
            (w\<lparr>units := filter (\<lambda>u. Name u \<noteq> basename f) (units w)
                  @ [\<lparr>Name = basename f, LoadState = ''loaded'', ActiveState = ''inactive''\<rparr>],
               live := (basename f, text) # filter (\<lambda>(n, t). n \<noteq> basename f) (live w)\<rparr>))"

definition sample_EnableUnitFiles ::
  "unit \<Rightarrow> string list \<Rightarrow> bool \<Rightarrow> bool \<Rightarrow> sample_world \<Rightarrow> error option \<times> sample_world" where
  "sample_EnableUnitFiles conn fs runtime force w =
     (if fails ''EnableUnitFiles'' w then (Some (External ''EnableUnitFiles failed''), w)
      else (None, enable_files fs w))"

definition sample_DisableUnitFiles ::
  "unit \<Rightarrow> string list \<Rightarrow> bool \<Rightarrow> sample_world \<Rightarrow> error option \<times> sample_world" where
  "sample_DisableUnitFiles conn names runtime w =
     (if fails ''DisableUnitFiles'' w then (Some (External ''DisableUnitFiles failed''), w)
      else (None, w\<lparr>units := filter (\<lambda>u. Name u \<notin> set names) (units w),
                     live := filter (\<lambda>(n, t). n \<notin> set names) (live w)\<rparr>))"

definition sample_getUnitOptions ::
  "unit \<Rightarrow> string \<Rightarrow> string \<Rightarrow> sample_world \<Rightarrow> (error + string) \<times> sample_world" where
  "sample_getUnitOptions conn name typ w =
     (if fails ''GetUnitProperties'' w then (Inl (External ''GetUnitProperties failed''), w)
      else case map_of (live w) name of
             None \<Rightarrow> (Inl (External ''no such unit''), w)
           | Some text \<Rightarrow> (Inr text, w))"

definition sample_removeAll :: "string \<Rightarrow> sample_world \<Rightarrow> error option \<times> sample_world" where
  "sample_removeAll name w =
     (if fails ''removeAll'' w then (Some (External ''removeAll failed''), w)
      else (None, w\<lparr>files := filter (\<lambda>(f, d). take (length name + 1) f \<noteq> name @ ''/'') (files w),
                     dirs := filter (\<lambda>d. d \<noteq> name) (dirs w)\<rparr>))"

definition sample_mkdirAll :: "string \<Rightarrow> sample_world \<Rightarrow> error option \<times> sample_world" where
  "sample_mkdirAll dirname w =
     (if fails ''mkdirAll'' w then (Some (External ''mkdirAll failed''), w)
      else (None, w\<lparr>dirs := List.insert dirname (dirs w)\<rparr>))"

definition sample_createFile ::
  "string \<Rightarrow> string \<Rightarrow> nat \<Rightarrow> sample_world \<Rightarrow> error option \<times> sample_world" where
  "sample_createFile filename data perm w =
     (if fails ''createFile'' w then (Some (External ''createFile failed''), w)
      else (None, w\<lparr>files := (filename, data) # filter (\<lambda>(f, d). f \<noteq> filename) (files w)\<rparr>))"

definition sample_env :: "(sample_world, unit, unit, sample_conf, string) env" where
  "sample_env =
     \<lparr>newConn = sample_newConn,
      Close = (\<lambda>conn w. w),
      ListUnits = sample_ListUnits,
      StartUnit = sample_StartUnit,
      StopUnit = sample_StopUnit,
      EnableUnitFiles = sample_EnableUnitFiles,
      DisableUnitFiles = sample_DisableUnitFiles,
      newChan = (\<lambda>w. ((), w)),
      receive = (\<lambda>ch w. (reply w, w)),
      getUnitOptions = sample_getUnitOptions,
      deserializeOptions = sample_deserialize,
      normalize = sample_normalize,
      validate = sample_validate,
      serialize = sample_serialize,
      ExecStart = Exec,
      findDataDir = Inr ''/var/lib/juju'',
      path_Join = sample_Join,
      removeAll = sample_removeAll,
      mkdirAll = sample_mkdirAll,
      createFile = sample_createFile\<rparr>"

text \<open>The world of a fresh host, and the service \<open>foo\<close> of the spec's scenario.\<close>

definition fresh :: sample_world where
  "fresh = \<lparr>units = [], live = [], files = [], dirs = [], faulty = [],
            conns_left = None, reply = Some ''done''\<rparr>"

definition foo_conf :: sample_conf where
  "foo_conf = \<lparr>Desc = ''Foo service'', Exec = ''/usr/bin/foo'', InlineScript = []\<rparr>"

definition foo :: "sample_conf Service" where
  "foo = \<lparr>Service_Name = ''foo'', Service_Conf = foo_conf, ConfName = ''foo.service'',
          UnitName = ''foo.service'', Dirname = ''/var/lib/juju/init/foo'', Script = None\<rparr>"

section \<open>Kinds of calls\<close>

text \<open>Calls that read the backend, calls that set a unit up and calls that tear one down.\<close>

fun is_observation :: "event \<Rightarrow> bool" where
  "is_observation (EvNewConn _) = True"
| "is_observation EvClose = True"
| "is_observation (EvListUnits _) = True"
| "is_observation (EvGetUnitOptions _ _ _) = True"
| "is_observation _ = False"

fun is_setup :: "event \<Rightarrow> bool" where
  "is_setup (EvMkdirAll _ _) = True"
| "is_setup (EvCreateFile _ _ _ _) = True"
| "is_setup (EvEnableUnitFiles _ _ _ _) = True"
| "is_setup _ = False"

fun is_teardown :: "event \<Rightarrow> bool" where
  "is_teardown (EvStopUnit _ _ _) = True"
| "is_teardown (EvDisableUnitFiles _ _ _) = True"
| "is_teardown (EvRemoveAll _ _) = True"
| "is_teardown _ = False"

text \<open>Opening a connection.\<close>

fun is_connect :: "event \<Rightarrow> bool" where
  "is_connect (EvNewConn _) = True"
| "is_connect _ = False"

text \<open>An action all of whose calls, from any world, are of one kind.\<close>

definition emits :: "(event \<Rightarrow> bool) \<Rightarrow> ('a, 'w) action \<Rightarrow> bool" where
  "emits P m = (\<forall>w. list_all P (events (m w)))"

text \<open>An action that returns from any world.\<close>

definition returns :: "('a, 'w) action \<Rightarrow> bool" where
  "returns m = (\<forall>w. \<exists>a. outcome (m w) = Returns a)"

section \<open>Sample inputs\<close>

definition mixed_units :: "UnitStatus list" where
  "mixed_units =
     [\<lparr>Name = ''foo.service'', LoadState = ''loaded'', ActiveState = ''active''\<rparr>,
      \<lparr>Name = ''tmp.mount'', LoadState = ''loaded'', ActiveState = ''active''\<rparr>,
      \<lparr>Name = ''bar.service'', LoadState = ''loaded'', ActiveState = ''inactive''\<rparr>,
      \<lparr>Name = ''dbus.socket'', LoadState = ''loaded'', ActiveState = ''active''\<rparr>,
      \<lparr>Name = ''service'', LoadState = ''loaded'', ActiveState = ''active''\<rparr>]"

text \<open>The host after \<open>foo\<close> was installed, and after it was started.\<close>

definition foo_text :: string where
  "foo_text = ''Foo service'' @ [CHR 0x0A] @ ''/usr/bin/foo''"

definition installed_world :: sample_world where
  "installed_world =
     \<lparr>units = [\<lparr>Name = ''foo.service'', LoadState = ''loaded'', ActiveState = ''inactive''\<rparr>],
      live = [(''foo.service'', foo_text)],
      files = [(''/var/lib/juju/init/foo/foo.service'', foo_text)],
      dirs = [''/var/lib/juju/init/foo''], faulty = [], conns_left = None,
      reply = Some ''done''\<rparr>"

definition running_world :: sample_world where
  "running_world =
     installed_world\<lparr>units :=
       [\<lparr>Name = ''foo.service'', LoadState = ''loaded'', ActiveState = ''active''\<rparr>]\<rparr>"

text \<open>
  A host where the backend serves the properties of \<open>foo.service\<close> and does not list
  the unit.
\<close>

definition unlisted_world :: sample_world where
  "unlisted_world = installed_world\<lparr>units := []\<rparr>"

text \<open>A configuration without an executable, and \<open>foo\<close> with another description.\<close>

definition bad_conf :: sample_conf where
  "bad_conf = \<lparr>Desc = ''Foo service'', Exec = [], InlineScript = []\<rparr>"

definition foo2_conf :: sample_conf where
  "foo2_conf = \<lparr>Desc = ''Foo service, again'', Exec = ''/usr/bin/foo'', InlineScript = []\<rparr>"

definition foo2 :: "sample_conf Service" where
  "foo2 = foo\<lparr>Service_Conf := foo2_conf\<rparr>"

definition foo2_text :: string where
  "foo2_text = ''Foo service, again'' @ [CHR 0x0A] @ ''/usr/bin/foo''"

text \<open>The host after \<open>foo2\<close> took the place of \<open>foo\<close>.\<close>

definition reinstalled_world :: sample_world where
  "reinstalled_world =
     installed_world\<lparr>live := [(''foo.service'', foo2_text)],
                      files := [(''/var/lib/juju/init/foo/foo.service'', foo2_text)]\<rparr>"

text \<open>A service whose name has a percent sign in it, as \<^verbatim>\<open>NewService\<close> makes it.\<close>

definition percent :: "sample_conf Service" where
  "percent = \<lparr>Service_Name = ''a%sb'', Service_Conf = foo_conf, ConfName = ''a%sb.service'',
              UnitName = ''a%sb.service'', Dirname = ''/var/lib/juju/init/a%sb'',
              Script = None\<rparr>"

section \<open>Properties\<close>

lemmas call_defs =
  call_newConn_def call_Close_def call_ListUnits_def call_getUnitOptions_def call_newChan_def
  call_StartUnit_def call_StopUnit_def call_receive_def call_EnableUnitFiles_def
  call_DisableUnitFiles_def call_removeAll_def call_mkdirAll_def call_createFile_def

lemmas seq_defs = andThen_def ret_def defer_Close_def outcome_def world_def events_def err_of_def

lemmas sample_defs =
  sample_env_def sample_newConn_def sample_ListUnits_def sample_StartUnit_def sample_StopUnit_def
  sample_EnableUnitFiles_def sample_DisableUnitFiles_def sample_getUnitOptions_def
  sample_removeAll_def sample_mkdirAll_def sample_createFile_def sample_serialize_def
  sample_deserialize_def sample_normalize_def sample_validate_def sample_Join_def basename_def
  fails_def set_active_def

lemmas input_defs =
  fresh_def foo_def foo_conf_def foo_text_def installed_world_def running_world_def
  unlisted_world_def bad_conf_def foo2_conf_def foo2_def mixed_units_def zero_conf_def
  foo2_text_def reinstalled_world_def percent_def

subsection \<open>Sequencing\<close>

lemma parts_triple:
  "outcome (r, w, es) = r" "world (r, w, es) = w" "events (r, w, es) = es"
  by (simp_all add: seq_defs)

lemma ret_parts:
  "outcome (ret a w) = Returns a" "world (ret a w) = w" "events (ret a w) = []"
  by (simp_all add: seq_defs)

lemma andThen_outcome:
  "outcome (m w) = Returns a \<Longrightarrow>
   andThen m f w = (outcome (f a (world (m w))), world (f a (world (m w))),
                    events (m w) @ events (f a (world (m w))))"
  by (cases "m w") (simp add: seq_defs split: prod.splits)

subsection \<open>Kinds of calls\<close>

lemma emits_ret: "emits P (ret a)"
  by (simp add: emits_def seq_defs)

lemma emits_andThen: "emits P m \<Longrightarrow> (\<And>a. emits P (f a)) \<Longrightarrow> emits P (andThen m f)"
  unfolding emits_def seq_defs
  by (auto split: prod.splits result.splits) (metis snd_conv)+

lemma emits_defer_Close: "P EvClose \<Longrightarrow> emits P body \<Longrightarrow> emits P (defer_Close E conn body)"
  unfolding defer_Close_def
  by (intro emits_andThen emits_ret) (simp_all add: emits_def call_defs seq_defs)

lemma emits_calls:
  "(\<And>r. P (EvNewConn r)) \<Longrightarrow> emits P (call_newConn E)"
  "(\<And>r. P (EvListUnits r)) \<Longrightarrow> emits P (call_ListUnits E conn)"
  "(\<And>r. P (EvGetUnitOptions n t r)) \<Longrightarrow> emits P (call_getUnitOptions E conn n t)"
  "P EvNewChan \<Longrightarrow> emits P (call_newChan E)"
  "(\<And>r. P (EvStartUnit n t r)) \<Longrightarrow> emits P (call_StartUnit E conn n t ch)"
  "(\<And>r. P (EvStopUnit n t r)) \<Longrightarrow> emits P (call_StopUnit E conn n t ch)"
  "(\<And>r. P (EvReceive r)) \<Longrightarrow> emits P (call_receive E ch)"
  "(\<And>r. P (EvEnableUnitFiles fs b1 b2 r)) \<Longrightarrow> emits P (call_EnableUnitFiles E conn fs b1 b2)"
  "(\<And>r. P (EvDisableUnitFiles fs b1 r)) \<Longrightarrow> emits P (call_DisableUnitFiles E conn fs b1)"
  "(\<And>r. P (EvRemoveAll n r)) \<Longrightarrow> emits P (call_removeAll E n)"
  "(\<And>r. P (EvMkdirAll n r)) \<Longrightarrow> emits P (call_mkdirAll E n)"
  "(\<And>r. P (EvCreateFile n d p r)) \<Longrightarrow> emits P (call_createFile E n d p)"
  by (simp_all add: emits_def call_defs seq_defs split: prod.splits option.splits)

lemmas emits_rules = emits_ret emits_andThen emits_defer_Close emits_calls

lemma emitsD: "emits P m \<Longrightarrow> list_all P (events (m w))"
  by (simp add: emits_def)

lemma emits_mono: "emits P m \<Longrightarrow> (\<And>e. P e \<Longrightarrow> Q e) \<Longrightarrow> emits Q m"
  by (auto simp: emits_def list_all_iff)

lemma observation_no_setup: "is_observation e \<Longrightarrow> \<not> is_setup e"
  by (cases e) simp_all

lemma returns_ret: "returns (ret a)"
  by (simp add: returns_def seq_defs)

lemma returns_andThen: "returns m \<Longrightarrow> (\<And>a. returns (f a)) \<Longrightarrow> returns (andThen m f)"
  unfolding returns_def seq_defs
  by (auto split: prod.splits result.splits) (metis fst_conv result.distinct(1))+

lemma returns_defer_Close: "returns body \<Longrightarrow> returns (defer_Close E conn body)"
  unfolding defer_Close_def
  by (intro returns_andThen returns_ret) (simp_all add: returns_def call_defs seq_defs)

lemma returns_calls:
  "returns (call_newConn E)"
  "returns (call_ListUnits E conn)"
  "returns (call_getUnitOptions E conn n t)"
  "returns (call_newChan E)"
  "returns (call_StartUnit E conn n t ch)"
  "returns (call_StopUnit E conn n t ch)"
  "returns (call_EnableUnitFiles E conn fs b1 b2)"
  "returns (call_DisableUnitFiles E conn fs b1)"
  "returns (call_removeAll E n)"
  "returns (call_mkdirAll E n)"
  "returns (call_createFile E n d p)"
  by (simp_all add: returns_def call_defs seq_defs split: prod.splits)

lemmas returns_rules = returns_ret returns_andThen returns_defer_Close returns_calls

subsection \<open>Suffixes and the loops\<close>

lemma HasSuffix_iff: "HasSuffix x sfx \<longleftrightarrow> (\<exists>n. x = n @ sfx)"
proof
  assume "HasSuffix x sfx"
  then have "x = take (length x - length sfx) x @ sfx"
    by (metis HasSuffix_def append_take_drop_id)
  then show "\<exists>n. x = n @ sfx" ..
next
  assume "\<exists>n. x = n @ sfx"
  then show "HasSuffix x sfx" by (auto simp: HasSuffix_def)
qed

lemma TrimSuffix_append: "TrimSuffix (n @ sfx) sfx = n"
  by (simp add: TrimSuffix_def HasSuffix_def)

lemma ListServices_loop_eq:
  "ListServices_loop us acc =
     acc @ map (\<lambda>u. TrimSuffix (Name u) ''.service'')
             (filter (\<lambda>u. HasSuffix (Name u) ''.service'') us)"
  by (induction us arbitrary: acc) simp_all

lemma stripped_mem:
  "n \<in> set (map (\<lambda>u. TrimSuffix (Name u) sfx) (filter (\<lambda>u. HasSuffix (Name u) sfx) us))
     \<longleftrightarrow> (\<exists>u \<in> set us. Name u = n @ sfx)"
  by (auto simp: HasSuffix_iff TrimSuffix_append image_iff)

lemma stripped_count:
  "count_list (map (\<lambda>u. TrimSuffix (Name u) sfx) (filter (\<lambda>u. HasSuffix (Name u) sfx) us)) n
     = length (filter (\<lambda>u. Name u = n @ sfx) us)"
  by (induction us) (auto simp: HasSuffix_iff TrimSuffix_append)

lemma Installed_loop_iff: "Installed_loop names n \<longleftrightarrow> n \<in> set names"
  by (induction names) auto

lemma Running_loop_listed: "Running_loop us n \<Longrightarrow> \<exists>u \<in> set us. Name u = n"
  by (induction us) (auto split: if_splits)

subsection \<open>What each function calls, and that it returns\<close>

lemma ListServices_listed:
  assumes "newConn E w = (Inr conn, w1)" and "ListUnits E conn w1 = (Inr us, w2)"
  shows "ListServices E w =
    (Returns (Inr (ListServices_loop us [])), Close E conn w2,
     [EvNewConn None, EvListUnits None, EvClose])"
  using assms by (simp add: ListServices_def seq_defs call_defs)

lemma ListServices_connects: "length (filter is_connect (events (ListServices E w))) = 1"
  by (simp add: ListServices_def seq_defs call_defs split: prod.splits sum.splits)

lemma ListServices_observes: "emits is_observation (ListServices E)"
  unfolding ListServices_def by (auto intro!: emits_rules split: sum.split)

lemma Installed_observes: "emits is_observation (Installed E s)"
  unfolding Installed_def by (auto intro!: emits_rules ListServices_observes split: sum.split)

lemma readConf_observes: "emits is_observation (readConf E s)"
  unfolding readConf_def by (auto intro!: emits_rules split: sum.split)

lemma check_observes: "emits is_observation (check E s)"
  unfolding check_def by (auto intro!: emits_rules readConf_observes split: sum.split)

lemma Exists_observes: "emits is_observation (Exists E s)"
  unfolding Exists_def by (auto intro!: emits_rules check_observes split: sum.split)

lemma Running_observes: "emits is_observation (Running E s)"
  unfolding Running_def by (auto intro!: emits_rules split: sum.split)

lemma ListServices_returns: "returns (ListServices E)"
  unfolding ListServices_def by (auto intro!: returns_rules split: sum.split)

lemma Installed_returns: "returns (Installed E s)"
  unfolding Installed_def by (auto intro!: returns_rules ListServices_returns split: sum.split)

lemma readConf_returns: "returns (readConf E s)"
  unfolding readConf_def by (auto intro!: returns_rules split: sum.split)

lemma check_returns: "returns (check E s)"
  unfolding check_def by (auto intro!: returns_rules readConf_returns split: sum.split)

lemma Exists_returns: "returns (Exists E s)"
  unfolding Exists_def by (auto intro!: returns_rules check_returns split: sum.split)

lemma Running_returns: "returns (Running E s)"
  unfolding Running_def by (auto intro!: returns_rules split: sum.split)

lemma Installed_events: "events (Installed E s w) = events (ListServices E w)"
  by (simp add: Installed_def seq_defs split: prod.splits result.splits sum.splits)

lemma Installed_world: "world (Installed E s w) = world (ListServices E w)"
  by (simp add: Installed_def seq_defs split: prod.splits result.splits sum.splits)

lemma Exists_check:
  "outcome (Exists E s w) = Returns True \<Longrightarrow>
   check E s w = (Returns (Inr True), world (Exists E s w), events (Exists E s w))"
  by (auto simp: Exists_def seq_defs split: prod.splits result.splits sum.splits)

lemma Running_imp_Installed:
  assumes "UnitName s = Service_Name s @ ''.service''"
    and "outcome (Running E s w) = Returns True"
  shows "outcome (Installed E s w) = Returns True"
proof -
  obtain r w1 where c: "newConn E w = (r, w1)" by (cases "newConn E w")
  show ?thesis
  proof (cases r)
    case (Inl err)
    with c assms(2) show ?thesis
      by (simp add: Running_def seq_defs call_defs)
  next
    case (Inr conn)
    obtain r2 w2 where l: "ListUnits E conn w1 = (r2, w2)" by (cases "ListUnits E conn w1")
    show ?thesis
    proof (cases r2)
      case (Inl err)
      with c l Inr assms(2) show ?thesis
        by (simp add: Running_def seq_defs call_defs)
    next
      case us: (Inr us)
      with c l Inr assms(2) have "Running_loop us (UnitName s)"
        by (simp add: Running_def seq_defs call_defs)
      then have "\<exists>u \<in> set us. Name u = Service_Name s @ ''.service''"
        using Running_loop_listed assms(1) by fastforce
      then have "Installed_loop (ListServices_loop us []) (Service_Name s)"
        unfolding Installed_loop_iff ListServices_loop_eq append_Nil stripped_mem .
      with c l Inr us show ?thesis
        by (simp add: Installed_def ListServices_def seq_defs call_defs)
    qed
  qed
qed

lemma Running_no_setup: "emits (\<lambda>e. \<not> is_setup e) (Running E s)"
  by (rule emits_mono [OF Running_observes]) (rule observation_no_setup)

lemma Installed_no_setup: "emits (\<lambda>e. \<not> is_setup e) (Installed E s)"
  by (rule emits_mono [OF Installed_observes]) (rule observation_no_setup)

lemma check_no_setup: "emits (\<lambda>e. \<not> is_setup e) (check E s)"
  by (rule emits_mono [OF check_observes]) (rule observation_no_setup)

lemma Stop_no_setup: "emits (\<lambda>e. \<not> is_setup e) (Stop E s)"
  unfolding Stop_def
  by (auto intro!: emits_rules Running_no_setup split: sum.split option.split)

lemma Remove_no_setup: "emits (\<lambda>e. \<not> is_setup e) (Remove E s)"
  unfolding Remove_def
  by (auto intro!: emits_rules Installed_no_setup split: sum.split option.split)

lemma StopAndRemove_no_setup: "emits (\<lambda>e. \<not> is_setup e) (StopAndRemove E s)"
  unfolding StopAndRemove_def
  by (auto intro!: emits_rules Stop_no_setup Remove_no_setup split: option.split)


lemma StopAndRemove_events:
  "events (StopAndRemove E s w) =
     events (Stop E s w) @
     (if outcome (Stop E s w) = Returns None then events (Remove E s (world (Stop E s w))) else [])"
  by (auto simp: StopAndRemove_def seq_defs split: prod.splits result.splits option.splits)

subsection \<open>The sample backend at work\<close>

lemmas run_defs =
  Installed_def ListServices_def Running_def readConf_def check_def Exists_def Start_def Stop_def
  Remove_def StopAndRemove_def writeConf_def Install_def errors_Trace_def Let_def
  HasSuffix_def TrimSuffix_def andThen_def ret_def defer_Close_def err_of_def call_defs
  sample_defs input_defs

lemma sample_Installed:
  "Installed sample_env s w =
     (case conns_left w of
        Some 0 \<Rightarrow> (Returns False, w, [EvNewConn (Some (External ''dbus: connection refused''))])
      | _ \<Rightarrow>
        (let w1 = (case conns_left w of Some (Suc n) \<Rightarrow> w\<lparr>conns_left := Some n\<rparr> | _ \<Rightarrow> w)
         in if ''ListUnits'' \<in> set (faulty w)
            then (Returns False, w1,
                  [EvNewConn None, EvListUnits (Some (External ''ListUnits failed'')), EvClose])
            else (Returns (Installed_loop (ListServices_loop (units w) []) (Service_Name s)), w1,
                  [EvNewConn None, EvListUnits None, EvClose])))"
  by (simp add: Installed_def ListServices_def seq_defs call_defs sample_defs
      split: option.splits nat.splits)

lemma sample_Running:
  "Running sample_env s w =
     (case conns_left w of
        Some 0 \<Rightarrow> (Returns False, w, [EvNewConn (Some (External ''dbus: connection refused''))])
      | _ \<Rightarrow>
        (let w1 = (case conns_left w of Some (Suc n) \<Rightarrow> w\<lparr>conns_left := Some n\<rparr> | _ \<Rightarrow> w)
         in if ''ListUnits'' \<in> set (faulty w)
            then (Returns False, w1,
                  [EvNewConn None, EvListUnits (Some (External ''ListUnits failed'')), EvClose])
            else (Returns (Running_loop (units w) (UnitName s)), w1,
                  [EvNewConn None, EvListUnits None, EvClose])))"
  by (simp add: Running_def seq_defs call_defs sample_defs split: option.splits nat.splits)

lemma foo_installed_in:
  "conns_left w = None \<Longrightarrow> faulty w = [] \<Longrightarrow>
   units w = [\<lparr>Name = ''foo.service'', LoadState = ''loaded'', ActiveState = a\<rparr>] \<Longrightarrow>
   Installed sample_env foo w = (Returns True, w, [EvNewConn None, EvListUnits None, EvClose])"
  by (simp add: sample_Installed HasSuffix_def TrimSuffix_def foo_def)

lemma foo_running_in:
  "conns_left w = None \<Longrightarrow> faulty w = [] \<Longrightarrow>
   units w = [\<lparr>Name = ''foo.service'', LoadState = ''loaded'', ActiveState = a\<rparr>] \<Longrightarrow>
   Running sample_env foo w =
     (Returns (a = ''active''), w, [EvNewConn None, EvListUnits None, EvClose])"
  by (simp add: sample_Running foo_def)

lemma sample_readConf:
  "conns_left w = None \<Longrightarrow> faulty w = [] \<Longrightarrow> map_of (live w) (UnitName s) = Some text \<Longrightarrow>
   readConf sample_env s w =
     (Returns (case sample_deserialize text of Inl err \<Rightarrow> Inl (Trace err) | Inr conf \<Rightarrow> Inr conf),
      w, [EvNewConn None, EvGetUnitOptions (UnitName s) ''Service'' None, EvClose])"
  by (simp add: readConf_def seq_defs call_defs sample_env_def sample_newConn_def
      sample_getUnitOptions_def fails_def split: sum.splits)

lemma foo_text_conf: "sample_deserialize foo_text = Inr foo_conf"
  by (simp add: sample_deserialize_def foo_text_def foo_conf_def)

lemma foo_exists_in:
  "conns_left w = None \<Longrightarrow> faulty w = [] \<Longrightarrow> live w = [(''foo.service'', foo_text)] \<Longrightarrow>
   Exists sample_env foo w =
     (Returns True, w, [EvNewConn None, EvGetUnitOptions ''foo.service'' ''Service'' None, EvClose])"
  using sample_readConf [of w foo foo_text]
  by (simp add: Exists_def check_def foo_text_conf) (simp add: seq_defs foo_def)

lemma foo_first_install:
  "Install sample_env foo fresh =
     (Returns None, installed_world,
      [EvNewConn None, EvListUnits None, EvClose,
       EvMkdirAll ''/var/lib/juju/init/foo'' None,
       EvCreateFile ''/var/lib/juju/init/foo/foo.service'' foo_text 420 None,
       EvNewConn None,
       EvEnableUnitFiles [''/var/lib/juju/init/foo/foo.service''] False True None,
       EvClose])"
  by (simp add: Install_def writeConf_def Installed_def ListServices_def errors_Trace_def
      Let_def seq_defs call_defs sample_defs input_defs)

subsection \<open>Install on a matching unit\<close>

text \<open>
  C1. When \<^verbatim>\<open>Installed\<close> and then \<^verbatim>\<open>Exists\<close> say yes, \<^verbatim>\<open>Install\<close> returns \<^verbatim>\<open>nil\<close>, and
  what it did is what those two observations do: it leaves the world they leave, and
  its calls are theirs, none of which writes a file, enables, stops, disables or
  deletes. Where observing leaves the backend as it is, so does \<^verbatim>\<open>Install\<close>, and
  \<^verbatim>\<open>Exists\<close> still says yes afterwards.
\<close>

theorem Install_matching_is_noop:
  assumes "outcome (Installed E s w) = Returns True"
    and "outcome (Exists E s (world (Installed E s w))) = Returns True"
  shows "Install E s w =
      (Returns None, world (Exists E s (world (Installed E s w))),
       events (Installed E s w) @ events (Exists E s (world (Installed E s w))))
    \<and> list_all is_observation (events (Install E s w))
    \<and> list_all (\<lambda>e. \<not> is_setup e \<and> \<not> is_teardown e) (events (Install E s w))
    \<and> (world (Installed E s w) = w \<and> world (Exists E s w) = w \<longrightarrow>
         world (Install E s w) = w \<and> outcome (Exists E s (world (Install E s w))) = Returns True)"
proof -
  let ?w1 = "world (Installed E s w)"
  have c: "check E s ?w1 = (Returns (Inr True), world (Exists E s ?w1), events (Exists E s ?w1))"
    by (rule Exists_check [OF assms(2)])
  then have c': "outcome (check E s ?w1) = Returns (Inr True)"
    by (simp add: parts_triple)
  have eq: "Install E s w =
      (Returns None, world (Exists E s ?w1), events (Installed E s w) @ events (Exists E s ?w1))"
    unfolding Install_def Let_def
    by (subst andThen_outcome [where m = "Installed E s", OF assms(1)])
      (simp add: andThen_outcome [where m = "check E s", OF c'] ret_parts parts_triple c)
  have obs: "list_all is_observation (events (Install E s w))"
    using emitsD [OF Installed_observes, of E s w] emitsD [OF Exists_observes, of E s ?w1]
    by (simp add: eq parts_triple)
  have "\<And>e. is_observation e \<Longrightarrow> \<not> is_setup e \<and> \<not> is_teardown e"
    by (case_tac e) simp_all
  with obs have quiet: "list_all (\<lambda>e. \<not> is_setup e \<and> \<not> is_teardown e) (events (Install E s w))"
    by (simp add: list_all_iff)
  have "world (Install E s w) = w \<and> outcome (Exists E s (world (Install E s w))) = Returns True"
    if "world (Installed E s w) = w \<and> world (Exists E s w) = w"
    using that assms(2) by (simp add: eq parts_triple)
  with eq obs quiet show ?thesis
    by blast
qed

theorem Install_matching_is_noop_witness:
  "Install sample_env foo fresh =
     (Returns None, installed_world,
      [EvNewConn None, EvListUnits None, EvClose,
       EvMkdirAll ''/var/lib/juju/init/foo'' None,
       EvCreateFile ''/var/lib/juju/init/foo/foo.service'' foo_text 420 None,
       EvNewConn None,
       EvEnableUnitFiles [''/var/lib/juju/init/foo/foo.service''] False True None,
       EvClose])
   \<and> outcome (Installed sample_env foo installed_world) = Returns True
   \<and> outcome (Exists sample_env foo (world (Installed sample_env foo installed_world))) = Returns True
   \<and> Install sample_env foo installed_world =
       (Returns None, installed_world,
        [EvNewConn None, EvListUnits None, EvClose,
         EvNewConn None, EvGetUnitOptions ''foo.service'' ''Service'' None, EvClose])
   \<and> outcome (Exists sample_env foo (world (Install sample_env foo installed_world))) = Returns True"
proof -
  have i: "Installed sample_env foo installed_world
      = (Returns True, installed_world, [EvNewConn None, EvListUnits None, EvClose])"
    by (rule foo_installed_in) (simp_all add: input_defs)
  have x: "Exists sample_env foo installed_world
      = (Returns True, installed_world,
         [EvNewConn None, EvGetUnitOptions ''foo.service'' ''Service'' None, EvClose])"
    by (rule foo_exists_in) (simp_all add: installed_world_def)
  have i': "outcome (Installed sample_env foo installed_world) = Returns True"
    and w': "world (Installed sample_env foo installed_world) = installed_world"
    by (simp_all add: i parts_triple)
  have x': "outcome (Exists sample_env foo (world (Installed sample_env foo installed_world)))
      = Returns True"
    by (simp add: w' x parts_triple)
  from Install_matching_is_noop [OF i' x'] foo_first_install i' x' show ?thesis
    by (simp add: i x w' parts_triple)
qed

subsection \<open>What Exists compares\<close>

text \<open>
  C2, as the code has it. \<^verbatim>\<open>Exists\<close> always returns a boolean, and it returns true
  exactly when a connection opens, the options of the service's unit are read, they
  deserialize, and the configuration they give equals the service's. It never lists the
  units.
\<close>

theorem Exists_iff_live_conf_equal:
  "returns (Exists E s)
   \<and> (outcome (Exists E s w) = Returns True \<longleftrightarrow>
        (\<exists>conn w1 opts w2.
            newConn E w = (Inr conn, w1)
            \<and> getUnitOptions E conn (UnitName s) ''Service'' w1 = (Inr opts, w2)
            \<and> deserializeOptions E opts = Inr (Service_Conf s)))
   \<and> (\<forall>r. EvListUnits r \<notin> set (events (Exists E s w)))"
proof (intro conjI)
  show "returns (Exists E s)" by (rule Exists_returns)
  show "outcome (Exists E s w) = Returns True \<longleftrightarrow>
        (\<exists>conn w1 opts w2.
            newConn E w = (Inr conn, w1)
            \<and> getUnitOptions E conn (UnitName s) ''Service'' w1 = (Inr opts, w2)
            \<and> deserializeOptions E opts = Inr (Service_Conf s))"
    by (auto simp: Exists_def check_def readConf_def seq_defs call_defs
        split: prod.splits sum.splits)
  show "\<forall>r. EvListUnits r \<notin> set (events (Exists E s w))"
    by (auto simp: Exists_def check_def readConf_def seq_defs call_defs
        split: prod.splits sum.splits)
qed

theorem Exists_iff_live_conf_equal_witness:
  "newConn sample_env installed_world = (Inr (), installed_world)
   \<and> getUnitOptions sample_env () (UnitName foo) ''Service'' installed_world
       = (Inr foo_text, installed_world)
   \<and> deserializeOptions sample_env foo_text = Inr (Service_Conf foo)
   \<and> outcome (Exists sample_env foo installed_world) = Returns True
   \<and> outcome (Exists sample_env foo2 installed_world) = Returns False"
proof -
  have c: "newConn sample_env installed_world = (Inr (), installed_world)"
    by (simp add: sample_defs input_defs)
  have g: "getUnitOptions sample_env () (UnitName foo) ''Service'' installed_world
       = (Inr foo_text, installed_world)"
    by (simp add: sample_defs input_defs)
  have d: "deserializeOptions sample_env foo_text = Inr (Service_Conf foo)"
    by (simp add: sample_defs input_defs)
  have n: "outcome (Exists sample_env foo2 installed_world) = Returns False"
    by (simp add: run_defs outcome_def)
  from Exists_iff_live_conf_equal [of sample_env foo installed_world] c g d
  have "outcome (Exists sample_env foo installed_world) = Returns True"
    by blast
  with c g d n show ?thesis by simp
qed

text \<open>
  C2, as the claim has it, fails: here is a backend that does not list the unit
  \<open>foo.service\<close> and serves its options, which are those of \<open>foo\<close>. The enumeration is
  empty, \<^verbatim>\<open>Installed\<close> is false and \<^verbatim>\<open>Exists\<close> is true.
\<close>

theorem Exists_without_Installed_counterexample:
  "outcome (ListServices sample_env unlisted_world) = Returns (Inr [])
   \<and> outcome (Installed sample_env foo unlisted_world) = Returns False
   \<and> outcome (Exists sample_env foo unlisted_world) = Returns True"
  by (simp add: run_defs outcome_def)

subsection \<open>Updating the configuration\<close>

text \<open>
  C3, as the code has it. \<^verbatim>\<open>UpdateConfig\<close> normalizes the new configuration against
  the script path of the service and validates the result under the service's name.
  If validation passes, the service gets the normalized configuration and the script
  bytes; if it fails, the service is as it was. In both cases the call returns, the
  caller is left with the service and nothing else, no collaborator call is made and the
  world is as it was.
\<close>

theorem UpdateConfig_best_effort:
  "(validate E (Service_Name s)
       (fst (normalize E conf (path_Join E [Dirname s, ''exec-start.sh'']))) = None \<longrightarrow>
      UpdateConfig E s conf w =
        (Returns (s\<lparr>Service_Conf :=
                       fst (normalize E conf (path_Join E [Dirname s, ''exec-start.sh''])),
                     Script :=
                       snd (normalize E conf (path_Join E [Dirname s, ''exec-start.sh'']))\<rparr>),
         w, []))
   \<and> (validate E (Service_Name s)
       (fst (normalize E conf (path_Join E [Dirname s, ''exec-start.sh'']))) \<noteq> None \<longrightarrow>
      UpdateConfig E s conf w = (Returns s, w, []))"
  by (auto simp: UpdateConfig_def setConf_def ret_def Let_def split: prod.splits option.splits)

theorem UpdateConfig_best_effort_witness:
  "validate sample_env (Service_Name foo)
      (fst (normalize sample_env foo2_conf
             (path_Join sample_env [Dirname foo, ''exec-start.sh'']))) = None
   \<and> UpdateConfig sample_env foo foo2_conf running_world = (Returns foo2, running_world, [])
   \<and> validate sample_env (Service_Name foo)
      (fst (normalize sample_env bad_conf
             (path_Join sample_env [Dirname foo, ''exec-start.sh''])))
       = Some (External ''missing executable'')
   \<and> UpdateConfig sample_env foo bad_conf running_world = (Returns foo, running_world, [])"
proof -
  have v: "validate sample_env (Service_Name foo)
      (fst (normalize sample_env foo2_conf
             (path_Join sample_env [Dirname foo, ''exec-start.sh'']))) = None"
    by (simp add: sample_defs input_defs)
  have n: "normalize sample_env foo2_conf (path_Join sample_env [Dirname foo, ''exec-start.sh''])
      = (foo2_conf, None)"
    by (simp add: sample_defs input_defs)
  have b: "validate sample_env (Service_Name foo)
      (fst (normalize sample_env bad_conf
             (path_Join sample_env [Dirname foo, ''exec-start.sh''])))
       = Some (External ''missing executable'')"
    by (simp add: sample_defs input_defs)
  have f: "foo\<lparr>Service_Conf := foo2_conf, Script := None\<rparr> = foo2"
    by (simp add: foo2_def foo_def)
  from UpdateConfig_best_effort [of sample_env foo foo2_conf running_world] v n f
  have a: "UpdateConfig sample_env foo foo2_conf running_world = (Returns foo2, running_world, [])"
    by simp
  from UpdateConfig_best_effort [of sample_env foo bad_conf running_world] b
  have c: "UpdateConfig sample_env foo bad_conf running_world = (Returns foo, running_world, [])"
    by simp
  from v a b c show ?thesis by simp
qed

text \<open>
  C3, as the claim has it, fails where it says the caller can observe the validation
  error. A configuration without an executable fails validation, the service's own
  configuration passes it, and \<^verbatim>\<open>UpdateConfig\<close> hands the caller the same thing in both
  cases.
\<close>

theorem UpdateConfig_error_unobservable_counterexample:
  "snd (setConf sample_env foo bad_conf) = Some (Trace (External ''missing executable''))
   \<and> snd (setConf sample_env foo foo_conf) = None
   \<and> UpdateConfig sample_env foo bad_conf fresh = UpdateConfig sample_env foo foo_conf fresh"
  by (simp add: UpdateConfig_def setConf_def ret_def sample_defs input_defs)

subsection \<open>Install over a different unit\<close>







subsection \<open>Start on a service that is not installed\<close>

lemma Contains_iff: "Contains s substr \<longleftrightarrow> (\<exists>pre post. s = pre @ substr @ post)"
proof (induction s)
  case Nil
  then show ?case by auto
next
  case (Cons c s)
  have "(\<exists>pre post. c # s = pre @ substr @ post)
     \<longleftrightarrow> (\<exists>post. c # s = substr @ post) \<or> (\<exists>pre post. s = pre @ substr @ post)"
  proof
    assume "\<exists>pre post. c # s = pre @ substr @ post"
    then obtain pre post where eq: "c # s = pre @ substr @ post" by blast
    show "(\<exists>post. c # s = substr @ post) \<or> (\<exists>pre post. s = pre @ substr @ post)"
    proof (cases pre)
      case Nil
      with eq show ?thesis by auto
    next
      case (Cons p pre')
      with eq have "s = pre' @ substr @ post" by simp
      then show ?thesis by blast
    qed
  next
    assume "(\<exists>post. c # s = substr @ post) \<or> (\<exists>pre post. s = pre @ substr @ post)"
    then show "\<exists>pre post. c # s = pre @ substr @ post"
    proof
      assume "\<exists>post. c # s = substr @ post"
      then obtain post where "c # s = [] @ substr @ post" by auto
      then show ?thesis by blast
    next
      assume "\<exists>pre post. s = pre @ substr @ post"
      then obtain pre post where "c # s = (c # pre) @ substr @ post" by auto
      then show ?thesis by blast
    qed
  qed
  moreover have "take (length substr) (c # s) = substr \<longleftrightarrow> (\<exists>post. c # s = substr @ post)"
    by (metis append_eq_conv_conj append_take_drop_id)
  ultimately show ?case using Cons.IH by simp
qed

lemma Sprintf_plain: "CHR ''%'' \<notin> set format \<Longrightarrow> Sprintf format [] = Some format"
  by (induction format "[] :: string list" rule: Sprintf.induct) auto

lemma Sprintf_plain_args:
  "CHR ''%'' \<notin> set pre \<Longrightarrow> Sprintf (pre @ format) args = map_option ((@) pre) (Sprintf format args)"
proof (induction pre)
  case Nil
  show ?case by (simp add: option.map_ident)
next
  case (Cons c pre)
  then have IH: "Sprintf (pre @ format) args = map_option ((@) pre) (Sprintf format args)"
    and c: "c \<noteq> CHR ''%''"
    by auto
  show ?case
  proof (cases "pre @ format")
    case Nil
    with c show ?thesis by (simp add: option.map_comp comp_def)
  next
    case (Cons v rest)
    with c IH show ?thesis by (simp add: option.map_comp comp_def)
  qed
qed

text \<open>
  Where the name has no percent sign in it, the message of the not-found error is the
  name between \<^verbatim>\<open>"service "\<close> and \<^verbatim>\<open>" not found"\<close>.
\<close>

lemma NotFoundf_plain_name:
  assumes "CHR ''%'' \<notin> set name"
  shows "Error (NotFoundf (''service '' @ name)) = Some (''service '' @ name @ '' not found'')"
    and "Contains (''service '' @ name @ '' not found'') name"
proof -
  have "CHR ''%'' \<notin> set (''service '' @ name @ '' not found'')"
    using assms by simp
  from Sprintf_plain [OF this]
  show "Error (NotFoundf (''service '' @ name)) = Some (''service '' @ name @ '' not found'')"
    by simp
  show "Contains (''service '' @ name @ '' not found'') name"
    unfolding Contains_iff by blast
qed

text \<open>
  The errors of \<^verbatim>\<open>Start\<close> and \<^verbatim>\<open>Stop\<close> on a completion value other than \<^verbatim>\<open>"done"\<close> pass
  the name as an argument: their message has the name in it, whatever the name.
\<close>

lemma Errorf_any_name:
  "Error (Errorf ''failed to start service %s'' [name]) = Some (''failed to start service '' @ name)"
  "Error (Errorf ''failed to stop service %s'' [name]) = Some (''failed to stop service '' @ name)"
  by (simp_all add: is_letter_def)

text \<open>
  For every service: when \<^verbatim>\<open>Installed\<close> says no, \<^verbatim>\<open>Start\<close> returns the not-found error
  made with \<^verbatim>\<open>"service "\<close> and the service's name as its format. The calls it made are
  those of the one listing: one connection, opened to list the units; no channel, no
  \<^verbatim>\<open>StartUnit\<close>, no receive.
\<close>

lemma Start_not_installed:
  assumes "outcome (Installed E s w) = Returns False"
  shows "Start E s w =
      (Returns (Some (NotFoundf (''service '' @ Service_Name s))),
       world (ListServices E w), events (ListServices E w))
    \<and> list_all is_observation (events (Start E s w))
    \<and> length (filter is_connect (events (Start E s w))) = 1
    \<and> (\<forall>n m r. EvStartUnit n m r \<notin> set (events (Start E s w)))"
proof -
  have eq: "Start E s w =
      (Returns (Some (NotFoundf (''service '' @ Service_Name s))),
       world (ListServices E w), events (ListServices E w))"
    unfolding Start_def
    by (subst andThen_outcome [where m = "Installed E s", OF assms])
      (simp add: ret_parts Installed_events Installed_world)
  have obs: "list_all is_observation (events (ListServices E w))"
    by (rule emitsD [OF ListServices_observes])
  then have "\<forall>n m r. EvStartUnit n m r \<notin> set (events (ListServices E w))"
    by (auto simp: list_all_iff)
  with eq obs ListServices_connects [of E w] show ?thesis
    by (simp add: events_def)
qed

lemma Start_not_installed_foo:
  "outcome (Installed sample_env foo fresh) = Returns False
   \<and> Start sample_env foo fresh =
       (Returns (Some (NotFoundf ''service foo'')), fresh,
        [EvNewConn None, EvListUnits None, EvClose])"
proof -
  have i: "outcome (Installed sample_env foo fresh) = Returns False"
    by (simp add: Installed_def ListServices_def seq_defs call_defs sample_defs input_defs)
  have l: "ListServices sample_env fresh = (Returns (Inr []), fresh, [EvNewConn None, EvListUnits None, EvClose])"
    by (simp add: ListServices_def seq_defs call_defs sample_defs input_defs)
  from Start_not_installed [OF i] i l show ?thesis
    by (simp add: seq_defs foo_def)
qed

lemma percent_NewService: "NewService sample_env zero_conf ''a%sb'' foo_conf = (Some percent, None)"
  by (simp add: NewService_def setConf_def Let_def sample_defs input_defs percent_def)

text \<open>
  C5, at a service named \<^verbatim>\<open>a%sb\<close> on a fresh host. \<^verbatim>\<open>NewService\<close> makes the service,
  it is not installed, and \<^verbatim>\<open>Start\<close> returns the not-found error without a start
  request. The name was passed as the format, so the verb in it is formatted: the
  message is \<^verbatim>\<open>service a%!s(MISSING)b not found\<close>, and the name does not occur in it.
\<close>

theorem Start_not_found_garbles_name:
  "NewService sample_env zero_conf ''a%sb'' foo_conf = (Some percent, None)
   \<and> outcome (Installed sample_env percent fresh) = Returns False
   \<and> Start sample_env percent fresh =
       (Returns (Some (NotFoundf ''service a%sb'')), fresh,
        [EvNewConn None, EvListUnits None, EvClose])
   \<and> Error (NotFoundf ''service a%sb'') = Some ''service a%!s(MISSING)b not found''
   \<and> \<not> Contains ''service a%!s(MISSING)b not found'' (Service_Name percent)"
proof -
  have i: "outcome (Installed sample_env percent fresh) = Returns False"
    by (simp add: Installed_def ListServices_def seq_defs call_defs sample_defs input_defs)
  have l: "ListServices sample_env fresh
      = (Returns (Inr []), fresh, [EvNewConn None, EvListUnits None, EvClose])"
    by (simp add: ListServices_def seq_defs call_defs sample_defs input_defs)
  from Start_not_installed [OF i] l
  have s: "Start sample_env percent fresh =
       (Returns (Some (NotFoundf ''service a%sb'')), fresh,
        [EvNewConn None, EvListUnits None, EvClose])"
    by (simp add: parts_triple percent_def)
  have m: "Error (NotFoundf ''service a%sb'') = Some ''service a%!s(MISSING)b not found''"
    by (simp add: is_letter_def)
  have n: "\<not> Contains ''service a%!s(MISSING)b not found'' (Service_Name percent)"
    by (simp add: percent_def)
  from percent_NewService i s m n show ?thesis by simp
qed

subsection \<open>Waiting for the completion value\<close>



subsection \<open>The no-op cases\<close>

text \<open>
  C7. The three no-op cases. \<^verbatim>\<open>Start\<close>, once \<^verbatim>\<open>Installed\<close> and then \<^verbatim>\<open>Running\<close> said
  yes, returns \<^verbatim>\<open>nil\<close>; so it does whenever \<^verbatim>\<open>Running\<close> says yes, for a service whose
  unit name is its name with \<^verbatim>\<open>.service\<close>, as \<^verbatim>\<open>NewService\<close> makes it, on a backend that
  the listing leaves as it was. \<^verbatim>\<open>Stop\<close>, when \<^verbatim>\<open>Running\<close> says no, returns \<^verbatim>\<open>nil\<close>;
  \<^verbatim>\<open>Remove\<close>, when \<^verbatim>\<open>Installed\<close> says no, returns \<^verbatim>\<open>nil\<close>. In each case the calls made
  are those of the observations alone: connections are opened to list the units and
  closed, and nothing is started, stopped, disabled or deleted.
\<close>

theorem documented_noops:
  "(outcome (Installed E s w) = Returns True
      \<and> outcome (Running E s (world (Installed E s w))) = Returns True \<longrightarrow>
      Start E s w =
        (Returns None, world (Running E s (world (Installed E s w))),
         events (Installed E s w) @ events (Running E s (world (Installed E s w))))
      \<and> list_all is_observation (events (Start E s w)))
   \<and> (UnitName s = Service_Name s @ ''.service'' \<and> world (Installed E s w) = w
      \<and> outcome (Running E s w) = Returns True \<longrightarrow>
      outcome (Start E s w) = Returns None
      \<and> list_all is_observation (events (Start E s w)))
   \<and> (outcome (Running E s w) = Returns False \<longrightarrow>
      Stop E s w = (Returns None, world (Running E s w), events (Running E s w))
      \<and> list_all is_observation (events (Stop E s w)))
   \<and> (outcome (Installed E s w) = Returns False \<longrightarrow>
      Remove E s w = (Returns None, world (Installed E s w), events (Installed E s w))
      \<and> list_all is_observation (events (Remove E s w)))"
proof -
  have start: "Start E s w =
        (Returns None, world (Running E s (world (Installed E s w))),
         events (Installed E s w) @ events (Running E s (world (Installed E s w))))
      \<and> list_all is_observation (events (Start E s w))"
    if i: "outcome (Installed E s w) = Returns True"
      and r: "outcome (Running E s (world (Installed E s w))) = Returns True"
  proof
    show eq: "Start E s w =
        (Returns None, world (Running E s (world (Installed E s w))),
         events (Installed E s w) @ events (Running E s (world (Installed E s w))))"
      unfolding Start_def
      by (subst andThen_outcome [where m = "Installed E s", OF i])
        (simp add: andThen_outcome [where m = "Running E s", OF r] ret_parts parts_triple)
    show "list_all is_observation (events (Start E s w))"
      using emitsD [OF Installed_observes, of E s w]
        emitsD [OF Running_observes, of E s "world (Installed E s w)"]
      by (simp add: eq) (simp add: events_def)
  qed
  have start': "outcome (Start E s w) = Returns None
      \<and> list_all is_observation (events (Start E s w))"
    if u: "UnitName s = Service_Name s @ ''.service''" and p: "world (Installed E s w) = w"
      and r: "outcome (Running E s w) = Returns True"
  proof -
    have r': "outcome (Running E s (world (Installed E s w))) = Returns True"
      using r p by simp
    note both = start [OF Running_imp_Installed [OF u r] r']
    from both have "outcome (Start E s w) = Returns None"
      by (simp add: parts_triple)
    with both show ?thesis by blast
  qed
  have stop: "Stop E s w = (Returns None, world (Running E s w), events (Running E s w))
      \<and> list_all is_observation (events (Stop E s w))"
    if r: "outcome (Running E s w) = Returns False"
  proof
    show eq: "Stop E s w = (Returns None, world (Running E s w), events (Running E s w))"
      unfolding Stop_def
      by (subst andThen_outcome [where m = "Running E s", OF r]) (simp add: ret_parts)
    show "list_all is_observation (events (Stop E s w))"
      using emitsD [OF Running_observes, of E s w]
      by (simp add: eq) (simp add: events_def)
  qed
  have remove: "Remove E s w = (Returns None, world (Installed E s w), events (Installed E s w))
      \<and> list_all is_observation (events (Remove E s w))"
    if i: "outcome (Installed E s w) = Returns False"
  proof
    show eq: "Remove E s w = (Returns None, world (Installed E s w), events (Installed E s w))"
      unfolding Remove_def
      by (subst andThen_outcome [where m = "Installed E s", OF i]) (simp add: ret_parts)
    show "list_all is_observation (events (Remove E s w))"
      using emitsD [OF Installed_observes, of E s w]
      by (simp add: eq) (simp add: events_def)
  qed
  from start start' stop remove show ?thesis
    by blast
qed

theorem documented_noops_witness:
  "outcome (Installed sample_env foo running_world) = Returns True
   \<and> outcome (Running sample_env foo (world (Installed sample_env foo running_world))) = Returns True
   \<and> UnitName foo = Service_Name foo @ ''.service''
   \<and> world (Installed sample_env foo running_world) = running_world
   \<and> outcome (Running sample_env foo running_world) = Returns True
   \<and> Start sample_env foo running_world =
       (Returns None, running_world,
        [EvNewConn None, EvListUnits None, EvClose, EvNewConn None, EvListUnits None, EvClose])
   \<and> outcome (Running sample_env foo installed_world) = Returns False
   \<and> Stop sample_env foo installed_world =
       (Returns None, installed_world, [EvNewConn None, EvListUnits None, EvClose])
   \<and> outcome (Installed sample_env foo fresh) = Returns False
   \<and> Remove sample_env foo fresh = (Returns None, fresh, [EvNewConn None, EvListUnits None, EvClose])"
proof -
  have i: "Installed sample_env foo running_world
      = (Returns True, running_world, [EvNewConn None, EvListUnits None, EvClose])"
    by (rule foo_installed_in) (simp_all add: input_defs)
  have r: "Running sample_env foo running_world
      = (Returns True, running_world, [EvNewConn None, EvListUnits None, EvClose])"
    using foo_running_in [of running_world "''active''"] by (simp add: input_defs)
  have r2: "Running sample_env foo installed_world
      = (Returns False, installed_world, [EvNewConn None, EvListUnits None, EvClose])"
    using foo_running_in [of installed_world "''inactive''"] by (simp add: input_defs)
  have i3: "Installed sample_env foo fresh
      = (Returns False, fresh, [EvNewConn None, EvListUnits None, EvClose])"
    by (simp add: sample_Installed fresh_def)
  have u: "UnitName foo = Service_Name foo @ ''.service''"
    by (simp add: foo_def)
  from documented_noops [of sample_env foo running_world] i r
  have a: "Start sample_env foo running_world =
       (Returns None, running_world,
        [EvNewConn None, EvListUnits None, EvClose, EvNewConn None, EvListUnits None, EvClose])"
    by (simp add: seq_defs)
  from documented_noops [of sample_env foo installed_world] r2
  have b: "Stop sample_env foo installed_world =
       (Returns None, installed_world, [EvNewConn None, EvListUnits None, EvClose])"
    by (simp add: seq_defs)
  from documented_noops [of sample_env foo fresh] i3
  have c: "Remove sample_env foo fresh = (Returns None, fresh, [EvNewConn None, EvListUnits None, EvClose])"
    by (simp add: seq_defs)
  from a b c i r r2 i3 u show ?thesis
    by (simp add: seq_defs)
qed

subsection \<open>Remove\<close>



subsection \<open>The lister\<close>

text \<open>
  C9. When the connection opens and the backend lists its units, \<^verbatim>\<open>ListServices\<close>
  returns, in the order of the list, the name of each unit whose name ends in
  \<^verbatim>\<open>.service\<close>, without that suffix, and nothing else: a name \<open>n\<close> is returned as many
  times as the backend lists a unit called \<open>n.service\<close>.
\<close>

theorem ListServices_suffix_filter:
  assumes "newConn E w = (Inr conn, w1)" and "ListUnits E conn w1 = (Inr us, w2)"
  shows "\<exists>names. outcome (ListServices E w) = Returns (Inr names)
     \<and> names = map (\<lambda>u. TrimSuffix (Name u) ''.service'')
                 (filter (\<lambda>u. HasSuffix (Name u) ''.service'') us)
     \<and> (\<forall>n. n \<in> set names \<longleftrightarrow> (\<exists>u \<in> set us. Name u = n @ ''.service''))
     \<and> (\<forall>n. count_list names n = length (filter (\<lambda>u. Name u = n @ ''.service'') us))"
  using ListServices_listed [OF assms]
  by (simp add: outcome_def ListServices_loop_eq stripped_mem stripped_count
      del: set_map set_filter map_eq_conv)

theorem ListServices_suffix_filter_witness:
  "newConn sample_env (fresh\<lparr>units := mixed_units\<rparr>) = (Inr (), fresh\<lparr>units := mixed_units\<rparr>)
   \<and> ListUnits sample_env () (fresh\<lparr>units := mixed_units\<rparr>)
       = (Inr mixed_units, fresh\<lparr>units := mixed_units\<rparr>)
   \<and> outcome (ListServices sample_env (fresh\<lparr>units := mixed_units\<rparr>))
       = Returns (Inr [''foo'', ''bar''])"
proof -
  let ?w = "fresh\<lparr>units := mixed_units\<rparr>"
  have c: "newConn sample_env ?w = (Inr (), ?w)"
    by (simp add: sample_env_def sample_newConn_def fresh_def)
  have l: "ListUnits sample_env () ?w = (Inr mixed_units, ?w)"
    by (simp add: sample_env_def sample_ListUnits_def fresh_def fails_def)
  from ListServices_suffix_filter [OF c l] c l show ?thesis
    by (simp add: mixed_units_def HasSuffix_def TrimSuffix_def)
qed

subsection \<open>Observations and a failing backend\<close>

text \<open>
  C10. \<^verbatim>\<open>Installed\<close>, \<^verbatim>\<open>Exists\<close> and \<^verbatim>\<open>Running\<close> always return, and what they return
  is a boolean. When the connection cannot be opened all three return false; when the
  units cannot be listed \<^verbatim>\<open>Installed\<close> and \<^verbatim>\<open>Running\<close> return false; when the unit's
  options cannot be read, or cannot be deserialized, \<^verbatim>\<open>Exists\<close> returns false.
\<close>

theorem observations_hide_backend_failures:
  "returns (Installed E s) \<and> returns (Exists E s) \<and> returns (Running E s)
   \<and> (\<forall>err w1. newConn E w = (Inl err, w1) \<longrightarrow>
         outcome (Installed E s w) = Returns False
         \<and> outcome (Exists E s w) = Returns False
         \<and> outcome (Running E s w) = Returns False)
   \<and> (\<forall>conn w1 err w2. newConn E w = (Inr conn, w1) \<and> ListUnits E conn w1 = (Inl err, w2) \<longrightarrow>
         outcome (Installed E s w) = Returns False
         \<and> outcome (Running E s w) = Returns False)
   \<and> (\<forall>conn w1 err w2.
         newConn E w = (Inr conn, w1)
         \<and> getUnitOptions E conn (UnitName s) ''Service'' w1 = (Inl err, w2) \<longrightarrow>
         outcome (Exists E s w) = Returns False)
   \<and> (\<forall>conn w1 opts w2 err.
         newConn E w = (Inr conn, w1)
         \<and> getUnitOptions E conn (UnitName s) ''Service'' w1 = (Inr opts, w2)
         \<and> deserializeOptions E opts = Inl err \<longrightarrow>
         outcome (Exists E s w) = Returns False)"
proof -
  have "\<And>err w1. newConn E w = (Inl err, w1) \<Longrightarrow>
         outcome (Installed E s w) = Returns False
         \<and> outcome (Exists E s w) = Returns False
         \<and> outcome (Running E s w) = Returns False"
    by (simp add: Installed_def ListServices_def Exists_def check_def readConf_def Running_def
        seq_defs call_defs)
  moreover have "\<And>conn w1 err w2.
      newConn E w = (Inr conn, w1) \<Longrightarrow> ListUnits E conn w1 = (Inl err, w2) \<Longrightarrow>
         outcome (Installed E s w) = Returns False \<and> outcome (Running E s w) = Returns False"
    by (simp add: Installed_def ListServices_def Running_def seq_defs call_defs)
  moreover have "\<And>conn w1 err w2.
      newConn E w = (Inr conn, w1) \<Longrightarrow>
      getUnitOptions E conn (UnitName s) ''Service'' w1 = (Inl err, w2) \<Longrightarrow>
         outcome (Exists E s w) = Returns False"
    by (simp add: Exists_def check_def readConf_def seq_defs call_defs)
  moreover have "\<And>conn w1 opts w2 err.
      newConn E w = (Inr conn, w1) \<Longrightarrow>
      getUnitOptions E conn (UnitName s) ''Service'' w1 = (Inr opts, w2) \<Longrightarrow>
      deserializeOptions E opts = Inl err \<Longrightarrow>
         outcome (Exists E s w) = Returns False"
    by (simp add: Exists_def check_def readConf_def seq_defs call_defs)
  ultimately show ?thesis
    using Installed_returns [of E s] Exists_returns [of E s] Running_returns [of E s]
    by blast
qed

theorem observations_hide_backend_failures_witness:
  "newConn sample_env (running_world\<lparr>conns_left := Some 0\<rparr>)
      = (Inl (External ''dbus: connection refused''), running_world\<lparr>conns_left := Some 0\<rparr>)
   \<and> outcome (Installed sample_env foo (running_world\<lparr>conns_left := Some 0\<rparr>)) = Returns False
   \<and> outcome (Exists sample_env foo (running_world\<lparr>conns_left := Some 0\<rparr>)) = Returns False
   \<and> outcome (Running sample_env foo (running_world\<lparr>conns_left := Some 0\<rparr>)) = Returns False
   \<and> ListUnits sample_env () (running_world\<lparr>faulty := [''ListUnits'']\<rparr>)
      = (Inl (External ''ListUnits failed''), running_world\<lparr>faulty := [''ListUnits'']\<rparr>)
   \<and> outcome (Installed sample_env foo (running_world\<lparr>faulty := [''ListUnits'']\<rparr>)) = Returns False
   \<and> outcome (Running sample_env foo (running_world\<lparr>faulty := [''ListUnits'']\<rparr>)) = Returns False
   \<and> getUnitOptions sample_env () (UnitName foo) ''Service''
        (running_world\<lparr>faulty := [''GetUnitProperties'']\<rparr>)
      = (Inl (External ''GetUnitProperties failed''),
         running_world\<lparr>faulty := [''GetUnitProperties'']\<rparr>)
   \<and> outcome (Exists sample_env foo (running_world\<lparr>faulty := [''GetUnitProperties'']\<rparr>))
      = Returns False
   \<and> deserializeOptions sample_env ''garbage'' = Inl (External ''malformed unit file'')
   \<and> outcome (Exists sample_env foo (running_world\<lparr>live := [(''foo.service'', ''garbage'')]\<rparr>))
      = Returns False"
proof -
  let ?down = "running_world\<lparr>conns_left := Some 0\<rparr>"
  let ?nolist = "running_world\<lparr>faulty := [''ListUnits'']\<rparr>"
  let ?noprops = "running_world\<lparr>faulty := [''GetUnitProperties'']\<rparr>"
  let ?garbage = "running_world\<lparr>live := [(''foo.service'', ''garbage'')]\<rparr>"
  have c0: "newConn sample_env ?down = (Inl (External ''dbus: connection refused''), ?down)"
    by (simp add: sample_defs input_defs)
  have c1: "newConn sample_env ?nolist = (Inr (), ?nolist)"
    by (simp add: sample_defs input_defs)
  have l1: "ListUnits sample_env () ?nolist = (Inl (External ''ListUnits failed''), ?nolist)"
    by (simp add: sample_defs input_defs)
  have c2: "newConn sample_env ?noprops = (Inr (), ?noprops)"
    by (simp add: sample_defs input_defs)
  have g2: "getUnitOptions sample_env () (UnitName foo) ''Service'' ?noprops
      = (Inl (External ''GetUnitProperties failed''), ?noprops)"
    by (simp add: sample_defs input_defs)
  have c3: "newConn sample_env ?garbage = (Inr (), ?garbage)"
    by (simp add: sample_defs input_defs)
  have g3: "getUnitOptions sample_env () (UnitName foo) ''Service'' ?garbage
      = (Inr ''garbage'', ?garbage)"
    by (simp add: sample_defs input_defs)
  have d3: "deserializeOptions sample_env ''garbage'' = Inl (External ''malformed unit file'')"
    by (simp add: sample_defs)
  from observations_hide_backend_failures [of sample_env foo ?down] c0
  have r0: "outcome (Installed sample_env foo ?down) = Returns False
     \<and> outcome (Exists sample_env foo ?down) = Returns False
     \<and> outcome (Running sample_env foo ?down) = Returns False"
    by simp
  from observations_hide_backend_failures [of sample_env foo ?nolist] c1 l1
  have r1: "outcome (Installed sample_env foo ?nolist) = Returns False
     \<and> outcome (Running sample_env foo ?nolist) = Returns False"
    by simp
  from observations_hide_backend_failures [of sample_env foo ?noprops] c2 g2
  have r2: "outcome (Exists sample_env foo ?noprops) = Returns False"
    by simp
  from observations_hide_backend_failures [of sample_env foo ?garbage] c3 g3 d3
  have r3: "outcome (Exists sample_env foo ?garbage) = Returns False"
    by simp
  from c0 l1 g2 d3 r0 r1 r2 r3 show ?thesis
    by simp
qed

end
